theory Spec2Isabelle
  imports Main "HOL-Library.AList" "HOL-Library.Sublist"
begin

section \<open>Data\<close>

subsection \<open>Parsed YAML documents\<close>

text \<open>
  \<^verbatim>\<open>yaml.load\<close> returns an arbitrary Python object: \<^verbatim>\<open>None\<close>, a bool, an int, a str, a list
  or a dict. A dict is an association list in insertion order; the program only ever looks
  up string keys, so keys are strings. The document is a tree of values (no object is
  shared between two places of the configuration). Floats, dates and binary values are left
  out: the program treats them as it treats an int (not subscriptable, not iterable).
\<close>

datatype yaml =
    YNull
  | YBool bool
  | YInt int
  | YStr string
  | YList "yaml list"
  | YMap "(string \<times> yaml) list"

subsection \<open>Exceptions\<close>

text \<open>
  The exception classes the program distinguishes in its handlers (\<^verbatim>\<open>socket.gaierror\<close>,
  \<^verbatim>\<open>AttributeError\<close>, \<^verbatim>\<open>wekalib.exceptions.HTTPError\<close> with its \<^verbatim>\<open>code\<close>,
  \<^verbatim>\<open>wekalib.exceptions.SSLError\<close>), the ones Python raises on the configuration object
  (\<^verbatim>\<open>KeyError\<close>, \<^verbatim>\<open>TypeError\<close>, \<^verbatim>\<open>ValueError\<close>), and any other \<^verbatim>\<open>Exception\<close>.
  The two wekalib classes are unrelated classes, neither a subclass of the other.
\<close>

datatype exc =
    KeyError string
  | TypeError
  | ValueError
  | AttributeError
  | Gaierror
  | HTTPError int
  | SSLError
  | OtherException string

subsection \<open>Python operations on the configuration object\<close>

text \<open>\<^verbatim>\<open>obj[key]\<close> for a str key: only a dict can be subscripted by a str.\<close>

fun getitem :: "yaml \<Rightarrow> string \<Rightarrow> exc + yaml" where
  "getitem (YMap m) k = (case map_of m k of None \<Rightarrow> Inl (KeyError k) | Some v \<Rightarrow> Inr v)"
| "getitem YNull k = Inl TypeError"
| "getitem (YBool b) k = Inl TypeError"
| "getitem (YInt n) k = Inl TypeError"
| "getitem (YStr s) k = Inl TypeError"
| "getitem (YList xs) k = Inl TypeError"

text \<open>
  \<^verbatim>\<open>key in obj\<close> for a str key: key membership in a dict, element membership in a list,
  substring test in a str, \<^verbatim>\<open>TypeError\<close> on \<^verbatim>\<open>None\<close>, a bool or an int.
\<close>

fun contains :: "string \<Rightarrow> yaml \<Rightarrow> exc + bool" where
  "contains k (YMap m) = Inr (map_of m k \<noteq> None)"
| "contains k (YList xs) = Inr (YStr k \<in> set xs)"
| "contains k (YStr s) = Inr (sublist k s)"
| "contains k YNull = Inl TypeError"
| "contains k (YBool b) = Inl TypeError"
| "contains k (YInt n) = Inl TypeError"

text \<open>\<^verbatim>\<open>obj[key] = v\<close> for a str key: a dict keeps the position of a key it already has.\<close>

fun setitem :: "yaml \<Rightarrow> string \<Rightarrow> yaml \<Rightarrow> exc + yaml" where
  "setitem (YMap m) k v = Inr (YMap (AList.update k v m))"
| "setitem YNull k v = Inl TypeError"
| "setitem (YBool b) k v = Inl TypeError"
| "setitem (YInt n) k v = Inl TypeError"
| "setitem (YStr s) k v = Inl TypeError"
| "setitem (YList xs) k v = Inl TypeError"

text \<open>
  \<^verbatim>\<open>for x in obj\<close>: the elements of a list, the one-character strings of a str, the keys
  of a dict.
\<close>

fun iter :: "yaml \<Rightarrow> exc + yaml list" where
  "iter (YList xs) = Inr xs"
| "iter (YStr s) = Inr (map (\<lambda>c. YStr [c]) s)"
| "iter (YMap m) = Inr (map (\<lambda>kv. YStr (fst kv)) m)"
| "iter YNull = Inl TypeError"
| "iter (YBool b) = Inl TypeError"
| "iter (YInt n) = Inl TypeError"

text \<open>Sequencing of computations that may raise: the first exception wins.\<close>

definition and_then :: "exc + 'a \<Rightarrow> ('a \<Rightarrow> exc + 'b) \<Rightarrow> exc + 'b" where
  "and_then r f = (case r of Inl e \<Rightarrow> Inl e | Inr x \<Rightarrow> f x)"

subsection \<open>Logging state, events, outcomes\<close>

datatype level = DEBUG | INFO | WARNING | ERROR | CRITICAL

datatype handler =
    StreamHandler string
  | SysLogHandler string string

text \<open>
  The process-wide logging configuration: the root logger's level and handlers (a handler
  with its format string; a syslog handler with its address first), and the levels set on
  named loggers.
\<close>

record logcfg =
  root_level :: level
  root_handlers :: "handler list"
  logger_levels :: "(string \<times> level) list"

text \<open>An opaque cluster handle, and the collector bound to a configuration and a handle.\<close>

datatype cluster_obj = ClusterObj nat

datatype collector = Collector yaml cluster_obj

text \<open>The keyword arguments of the \<^verbatim>\<open>WekaCluster\<close> constructor call.\<close>

record cluster_args =
  arg_hosts :: yaml
  arg_auth_token_file :: yaml
  arg_force_https :: yaml
  arg_verify_cert :: yaml
  arg_backends_only :: yaml
  arg_timeout :: yaml
  arg_mgmt_port :: yaml

text \<open>A value interpolated into a message.\<close>

datatype fmtarg = V yaml | E exc | S string

text \<open>
  What the process does to the outside, in order. A \<open>Log\<close> event is a call on the root
  logger at a level, with the source's format string and the values interpolated into it.
\<close>

datatype event =
    SignalHandling
  | PrintOut string "fmtarg list"
  | Log level string "fmtarg list"
  | PathExists string
  | OpenFile string
  | Gethostbyname yaml
  | NewWekaCluster cluster_args
  | NewCollector yaml cluster_obj
  | StartHttpServer int
  | Register collector
  | Sleep nat

text \<open>
  How a function stops: \<^verbatim>\<open>sys.exit(n)\<close>, a \<^verbatim>\<open>return\<close> (bare, or of an int), or an exception
  that nothing catches.
\<close>

datatype outcome = Exit int | Return "int option" | Raise exc

text \<open>
  The status of the process when \<open>main\<close> stops that way: the script's last statement is
  \<^verbatim>\<open>main()\<close>, whose return value is dropped; an uncaught exception ends the interpreter
  with status 1.
\<close>

fun exit_status :: "outcome \<Rightarrow> int" where
  "exit_status (Exit n) = n"
| "exit_status (Return r) = 0"
| "exit_status (Raise e) = 1"

subsection \<open>The environment\<close>

text \<open>
  The libraries and the operating system the program calls, as functions of their
  arguments: the resolver, the cluster client's constructor, the metrics server, the
  file system, the YAML parser (called with \<^verbatim>\<open>Loader=yaml.FullLoader\<close>, and without a
  loader), Python's \<^verbatim>\<open>int\<close> on a str, and \<^verbatim>\<open>platform.platform()\<close>.
\<close>

record env =
  gethostbyname :: "string \<Rightarrow> exc + string"
  WekaCluster :: "cluster_args \<Rightarrow> exc + cluster_obj"
  start_http_server :: "int \<Rightarrow> exc option"
  path_exists :: "string \<Rightarrow> bool"
  open_file :: "string \<Rightarrow> exc + string"
  yaml_load_full :: "string \<Rightarrow> exc + yaml"
  yaml_load_plain :: "string \<Rightarrow> exc + yaml"
  int_of_str :: "string \<Rightarrow> int option"
  platform :: string

text \<open>\<^verbatim>\<open>socket.gethostbyname(host)\<close>: the argument must be a str.\<close>

fun py_gethostbyname :: "env \<Rightarrow> yaml \<Rightarrow> exc + string" where
  "py_gethostbyname en (YStr s) = gethostbyname en s"
| "py_gethostbyname en YNull = Inl TypeError"
| "py_gethostbyname en (YBool b) = Inl TypeError"
| "py_gethostbyname en (YInt n) = Inl TypeError"
| "py_gethostbyname en (YList xs) = Inl TypeError"
| "py_gethostbyname en (YMap m) = Inl TypeError"

text \<open>\<^verbatim>\<open>int(x)\<close>.\<close>

fun py_int :: "env \<Rightarrow> yaml \<Rightarrow> exc + int" where
  "py_int en (YInt n) = Inr n"
| "py_int en (YBool b) = Inr (if b then 1 else 0)"
| "py_int en (YStr s) = (case int_of_str en s of None \<Rightarrow> Inl ValueError | Some n \<Rightarrow> Inr n)"
| "py_int en YNull = Inl TypeError"
| "py_int en (YList xs) = Inl TypeError"
| "py_int en (YMap m) = Inl TypeError"

section \<open>The program\<close>

definition VERSION :: string where
  "VERSION = ''2025-06-25''"

subsection \<open>\<^verbatim>\<open>configure_logging\<close>\<close>

text \<open>The four local variables the verbosity decides.\<close>

record logvars =
  loglevel :: level
  libloglevel :: level
  console_format :: string
  syslog_format :: string

definition default_logvars :: logvars where
  "default_logvars =
     \<lparr>loglevel = INFO, libloglevel = ERROR,
      console_format = ''%(message)s'',
      syslog_format = ''%(process)s:%(filename)s:%(lineno)s:%(funcName)s():%(levelname)s:%(message)s''\<rparr>"

definition choose_logvars :: "int \<Rightarrow> logvars" where
  "choose_logvars vb =
     (if vb = 1 then
        default_logvars
          \<lparr>loglevel := INFO,
           console_format := ''%(levelname)s:%(message)s'',
           syslog_format := ''%(process)s:%(filename)s:%(lineno)s:%(funcName)s():%(levelname)s:%(message)s'',
           libloglevel := INFO\<rparr>
      else if vb = 2 then
        default_logvars
          \<lparr>loglevel := DEBUG,
           console_format := ''%(filename)s:%(lineno)s:%(funcName)s():%(levelname)s:%(message)s'',
           syslog_format := ''%(process)s:%(filename)s:%(lineno)s:%(funcName)s():%(levelname)s:%(message)s''\<rparr>
      else if vb > 2 then
        default_logvars
          \<lparr>loglevel := DEBUG,
           console_format := ''%(filename)s:%(lineno)s:%(funcName)s():%(levelname)s:%(message)s'',
           syslog_format := ''%(process)s:%(filename)s:%(lineno)s:%(funcName)s():%(levelname)s:%(message)s'',
           libloglevel := DEBUG\<rparr>
      else default_logvars)"

definition addHandler :: "handler \<Rightarrow> logcfg \<Rightarrow> logcfg" where
  "addHandler h lc = lc\<lparr>root_handlers := root_handlers lc @ [h]\<rparr>"

definition setLevel :: "string \<Rightarrow> level \<Rightarrow> logcfg \<Rightarrow> logcfg" where
  "setLevel name lv lc = lc\<lparr>logger_levels := AList.update name lv (logger_levels lc)\<rparr>"

text \<open>
  The syslog part: skipped when \<open>disable_syslog\<close>; otherwise one \<^verbatim>\<open>logger.info\<close> call, then a
  handler on the platform's syslog socket.
\<close>

definition add_syslog :: "env \<Rightarrow> bool \<Rightarrow> string \<Rightarrow> logcfg \<Rightarrow> logcfg \<times> event list" where
  "add_syslog en disable_syslog fmt lc =
     (if \<not> disable_syslog then
        (let syslogaddr = (if take 5 (platform en) = ''macOS'' then ''/var/run/syslog'' else ''/dev/log'')
         in (addHandler (SysLogHandler syslogaddr fmt) lc,
             [Log INFO ''setting syslog on {platform.platform()}'' [S (platform en)]]))
      else (lc, []))"

definition configure_logging :: "env \<Rightarrow> int \<Rightarrow> bool \<Rightarrow> logcfg \<Rightarrow> logcfg \<times> event list" where
  "configure_logging en vb disable_syslog lc =
     (let vars = choose_logvars vb;
          lc1 = addHandler (StreamHandler (console_format vars)) lc;
          (lc2, evs) = add_syslog en disable_syslog (syslog_format vars) lc1;
          lc3 = lc2\<lparr>root_level := loglevel vars\<rparr>;
          lc4 = setLevel ''wekalib'' ERROR lc3;
          lc5 = setLevel ''wekalib.wekaapi'' (libloglevel vars) lc4;
          lc6 = setLevel ''wekalib.wekacluster'' (libloglevel vars) lc5;
          lc7 = setLevel ''wekalib.sthreads'' ERROR lc6;
          lc8 = setLevel ''urllib3'' ERROR lc7;
          lc9 = setLevel ''collector'' (loglevel vars) lc8
      in (lc9, evs))"

text \<open>The level a named logger was given, if any.\<close>

definition level_of :: "logcfg \<Rightarrow> string \<Rightarrow> level option" where
  "level_of lc name = map_of (logger_levels lc) name"

subsection \<open>\<^verbatim>\<open>_load_config\<close>\<close>

text \<open>
  \<^verbatim>\<open>open\<close> may raise (re-raised as it is). The parser's \<^verbatim>\<open>AttributeError\<close> is answered
  by a second call without a loader, whose result or exception is the function's; any
  other exception of the parser is logged and re-raised. The result of the parser is
  returned as it is.
\<close>

definition load_config :: "env \<Rightarrow> string \<Rightarrow> (exc + yaml) \<times> event list" where
  "load_config en inputfile =
     (case open_file en inputfile of
        Inl exc \<Rightarrow> (Inl exc, [OpenFile inputfile])
      | Inr f \<Rightarrow>
          (case yaml_load_full en f of
             Inr doc \<Rightarrow> (Inr doc, [OpenFile inputfile])
           | Inl exc \<Rightarrow>
               if exc = AttributeError then (yaml_load_plain en f, [OpenFile inputfile])
               else (Inl exc, [OpenFile inputfile, Log ERROR ''Error reading config file: {exc}'' [E exc]])))"

subsection \<open>\<^verbatim>\<open>prom_client\<close>\<close>

text \<open>\<^verbatim>\<open>config[stanza][key]\<close>.\<close>

definition getitem2 :: "yaml \<Rightarrow> string \<Rightarrow> string \<Rightarrow> exc + yaml" where
  "getitem2 config stanza k = and_then (getitem config stanza) (\<lambda>st. getitem st k)"

text \<open>
  The body of the loop over the hosts (lines 42 to 49): whether this host sets \<^verbatim>\<open>error\<close>,
  and what was called.
\<close>

definition try_resolve :: "env \<Rightarrow> yaml \<Rightarrow> bool \<times> event list" where
  "try_resolve en host =
     (case py_gethostbyname en host of
        Inr ip \<Rightarrow> (False, [Gethostbyname host])
      | Inl exc \<Rightarrow>
          if exc = Gaierror then
            (True, [Gethostbyname host,
                    Log CRITICAL ''Hostname {host} not resolvable - is it in /etc/hosts or DNS?'' [V host]])
          else (True, [Gethostbyname host, Log CRITICAL ''{exc}'' [E exc]]))"

fun resolve_hosts :: "env \<Rightarrow> yaml list \<Rightarrow> bool \<Rightarrow> bool \<times> event list" where
  "resolve_hosts en [] error = (error, [])"
| "resolve_hosts en (host # hosts) error =
     (let (failed, evs) = try_resolve en host;
          (error', evs') = resolve_hosts en hosts (if failed then True else error)
      in (error', evs @ evs'))"

text \<open>
  Lines 40 to 59: the loop over \<^verbatim>\<open>config['cluster']['hosts']\<close>, then the \<^verbatim>\<open>if/elif/elif\<close>
  on \<^verbatim>\<open>error\<close> and the two stanzas. \<open>Some\<close> is how the function stops there, \<open>None\<close> that
  it goes on.
\<close>

definition check_hosts_and_stanzas :: "env \<Rightarrow> yaml \<Rightarrow> outcome option \<times> event list" where
  "check_hosts_and_stanzas en config =
     (case and_then (getitem2 config ''cluster'' ''hosts'') iter of
        Inl exc \<Rightarrow> (Some (Raise exc), [])
      | Inr hosts \<Rightarrow>
          (let (error, evs) = resolve_hosts en hosts False in
           if error then
             (Some (Exit 1),
              evs @ [Log CRITICAL ''Errors resolving hostnames given.  Please ensure they are in /etc/hosts or DNS and are resolvable'' []])
           else
             (case contains ''cluster'' config of
                Inl exc \<Rightarrow> (Some (Raise exc), evs)
              | Inr has_cluster \<Rightarrow>
                  if \<not> has_cluster then
                    (Some (Exit 1),
                     evs @ [Log ERROR '''cluster:' stanza missing from .yml file - version mismatch between .yml and exporter version?'' []])
                  else
                    (case contains ''exporter'' config of
                       Inl exc \<Rightarrow> (Some (Raise exc), evs)
                     | Inr has_exporter \<Rightarrow>
                         if \<not> has_exporter then
                           (Some (Exit 1),
                            evs @ [Log ERROR '''exporter:' stanza missing from .yml file - version mismatch between .yml and exporter version?'' []])
                         else (None, evs)))))"

text \<open>
  One block of lines 62 to 82:
  \<^verbatim>\<open>if key not in config[stanza]: config[stanza][key] = v\<close>. The assignment changes the
  stanza object in place; here it is written back into the configuration.
\<close>

definition default_key :: "string \<Rightarrow> string \<Rightarrow> yaml \<Rightarrow> yaml \<Rightarrow> exc + yaml" where
  "default_key stanza k v config =
     and_then (getitem config stanza) (\<lambda>st.
     and_then (contains k st) (\<lambda>present.
       if \<not> present then
         and_then (getitem config stanza) (\<lambda>st'.
         and_then (setitem st' k v) (\<lambda>st''. setitem config stanza st''))
       else Inr config))"

text \<open>The seven blocks, in the order of the source.\<close>

definition optional_defaults :: "(string \<times> string \<times> yaml) list" where
  "optional_defaults =
     [(''cluster'', ''force_https'', YBool False),
      (''cluster'', ''filesystems'', YNull),
      (''cluster'', ''verify_cert'', YBool True),
      (''cluster'', ''mgmt_port'', YInt 14000),
      (''exporter'', ''timeout'', YInt 10),
      (''exporter'', ''backends_only'', YBool True),
      (''exporter'', ''exceeded_only'', YBool True)]"

text \<open>
  Running blocks one after the other: the exception that stops them, if any, and the
  configuration as changed until then.
\<close>

fun run_defaults :: "(string \<times> string \<times> yaml) list \<Rightarrow> yaml \<Rightarrow> exc option \<times> yaml" where
  "run_defaults [] config = (None, config)"
| "run_defaults ((stanza, k, v) # rest) config =
     (case default_key stanza k v config of
        Inl exc \<Rightarrow> (Some exc, config)
      | Inr config' \<Rightarrow> run_defaults rest config')"

definition apply_defaults :: "yaml \<Rightarrow> exc option \<times> yaml" where
  "apply_defaults config = run_defaults optional_defaults config"

text \<open>The arguments of the constructor call, evaluated left to right inside the \<^verbatim>\<open>try\<close>.\<close>

definition get_cluster_args :: "yaml \<Rightarrow> exc + cluster_args" where
  "get_cluster_args config =
     and_then (getitem2 config ''cluster'' ''hosts'') (\<lambda>a1.
     and_then (getitem2 config ''cluster'' ''auth_token_file'') (\<lambda>a2.
     and_then (getitem2 config ''cluster'' ''force_https'') (\<lambda>a3.
     and_then (getitem2 config ''cluster'' ''verify_cert'') (\<lambda>a4.
     and_then (getitem2 config ''exporter'' ''backends_only'') (\<lambda>a5.
     and_then (getitem2 config ''exporter'' ''timeout'') (\<lambda>a6.
     and_then (getitem2 config ''cluster'' ''mgmt_port'') (\<lambda>a7.
       Inr \<lparr>arg_hosts = a1, arg_auth_token_file = a2, arg_force_https = a3,
            arg_verify_cert = a4, arg_backends_only = a5, arg_timeout = a6,
            arg_mgmt_port = a7\<rparr>)))))))"

text \<open>The three handlers of lines 93 to 107; each ends in a bare \<^verbatim>\<open>return\<close>.\<close>

definition connect_failed :: "exc \<Rightarrow> event list" where
  "connect_failed exc =
     (case exc of
        HTTPError code \<Rightarrow>
          if code = 403 then
            [Log CRITICAL ''Cluster returned permission error - is the userid level ReadOnly or above?'' []]
          else [Log CRITICAL ''Cluster returned HTTP error {exc}; aborting'' [E exc]]
      | SSLError \<Rightarrow>
          [Log CRITICAL ''SSL Error: Only weka v3.10 and above support https, and force_https is set in config file.'' [],
           Log CRITICAL ''SSL Error: Is this cluster < v3.10? Please verify configuration'' [],
           Log CRITICAL ''Error is {exc}'' [E exc]]
      | _ \<Rightarrow>
          [Log CRITICAL ''Unable to create Weka Cluster: {exc}'' [E exc],
           Log CRITICAL ''{traceback.format_exc()}'' [E exc]])"

text \<open>Lines 84 to 107.\<close>

definition connect :: "env \<Rightarrow> yaml \<Rightarrow> (outcome + cluster_obj) \<times> event list" where
  "connect en config =
     (case getitem2 config ''exporter'' ''timeout'' of
        Inl exc \<Rightarrow> (Inl (Raise exc), [])
      | Inr t \<Rightarrow>
          (let ev = Log INFO ''Timeout set to {config['exporter']['timeout']} secs'' [V t] in
           case get_cluster_args config of
             Inl exc \<Rightarrow> (Inl (Return None), ev # connect_failed exc)
           | Inr cargs \<Rightarrow>
               (case WekaCluster en cargs of
                  Inl exc \<Rightarrow> (Inl (Return None), ev # NewWekaCluster cargs # connect_failed exc)
                | Inr obj \<Rightarrow> (Inr obj, [ev, NewWekaCluster cargs]))))"

text \<open>
  Lines 110 to 123: the collector, the \<^verbatim>\<open>log.info\<close> that reads \<^verbatim>\<open>listen_port\<close> outside the
  \<^verbatim>\<open>try\<close>, the server start inside it, the registration.
\<close>

definition start_server :: "env \<Rightarrow> yaml \<Rightarrow> cluster_obj \<Rightarrow> (outcome + collector) \<times> event list" where
  "start_server en config obj =
     (let col = Collector config obj; ev0 = NewCollector config obj in
      case getitem2 config ''exporter'' ''listen_port'' of
        Inl exc \<Rightarrow> (Inl (Raise exc), [ev0])
      | Inr port \<Rightarrow>
          (let ev1 = Log INFO ''starting http server on port {config['exporter']['listen_port']}'' [V port];
               failed = (\<lambda>exc. Log CRITICAL ''Unable to start http server on port {config['exporter']['listen_port']}: {exc}'' [V port, E exc])
           in case py_int en port of
                Inl exc \<Rightarrow> (Inl (Return (Some 1)), [ev0, ev1, failed exc])
              | Inr p \<Rightarrow>
                  (case start_http_server en p of
                     Some exc \<Rightarrow> (Inl (Return (Some 1)), [ev0, ev1, StartHttpServer p, failed exc])
                   | None \<Rightarrow> (Inr col, [ev0, ev1, StartHttpServer p, Register col]))))"

text \<open>
  Lines 38 to 123, everything before the final loop: how the function stops (or the
  registered collector when it reaches the loop), the configuration object as the
  function left it, and what was called.
\<close>

definition prom_client_setup :: "env \<Rightarrow> yaml \<Rightarrow> (outcome + collector) \<times> yaml \<times> event list" where
  "prom_client_setup en config =
     (case check_hosts_and_stanzas en config of
        (Some out, evs) \<Rightarrow> (Inl out, config, evs)
      | (None, evs) \<Rightarrow>
          (case apply_defaults config of
             (Some exc, config1) \<Rightarrow> (Inl (Raise exc), config1, evs)
           | (None, config1) \<Rightarrow>
               (case connect en config1 of
                  (Inl out, evs1) \<Rightarrow> (Inl out, config1, evs @ evs1)
                | (Inr obj, evs1) \<Rightarrow>
                    (case start_server en config1 obj of
                       (r, evs2) \<Rightarrow> (r, config1, evs @ evs1 @ evs2)))))"

text \<open>\<^verbatim>\<open>while True: time.sleep(secs)\<close>: no result (\<open>None\<close>) when it never stops.\<close>

partial_function (option) serve_forever :: "nat \<Rightarrow> (outcome \<times> event list) option" where
  "serve_forever secs =
     Option.bind (serve_forever secs) (\<lambda>r. Some (fst r, Sleep secs # snd r))"

definition prom_client :: "env \<Rightarrow> yaml \<Rightarrow> (outcome \<times> yaml \<times> event list) option" where
  "prom_client en config =
     (case prom_client_setup en config of
        (Inl out, config1, evs) \<Rightarrow> Some (out, config1, evs)
      | (Inr col, config1, evs) \<Rightarrow>
          Option.bind (serve_forever 30) (\<lambda>r. Some (fst r, config1, evs @ snd r)))"

subsection \<open>\<^verbatim>\<open>main\<close>\<close>

text \<open>The parsed command line.\<close>

record args =
  configfile :: string
  no_syslog :: bool
  verbosity :: int
  version :: bool

text \<open>
  \<open>main\<close> after \<^verbatim>\<open>parser.parse_args()\<close> has returned the arguments; \<open>argv0\<close> is
  \<^verbatim>\<open>sys.argv[0]\<close>. The result of \<open>prom_client\<close> is dropped: when it returns, \<open>main\<close> returns
  \<^verbatim>\<open>None\<close>.
\<close>

definition main :: "env \<Rightarrow> string \<Rightarrow> args \<Rightarrow> logcfg \<Rightarrow> (outcome \<times> logcfg \<times> event list) option" where
  "main en argv0 a lc =
     (if version a then
        Some (Exit 0, lc, [SignalHandling, PrintOut ''{sys.argv[0]} version {VERSION}'' [S argv0, S VERSION]])
      else
        (let (lc1, evs1) = configure_logging en (verbosity a) (no_syslog a) lc;
             evs2 = SignalHandling # evs1 @ [PathExists (configfile a)]
         in if \<not> path_exists en (configfile a) then
              Some (Exit 1, lc1,
                    evs2 @ [Log CRITICAL ''Required configfile '{args.configfile}' does not exist'' [S (configfile a)]])
            else
              (case load_config en (configfile a) of
                 (Inl exc, evs3) \<Rightarrow>
                   Some (Return None, lc1,
                         evs2 @ [Log DEBUG ''loading config file'' []] @ evs3 @
                         [Log CRITICAL ''Error loading config file '{args.configfile}': {exc}'' [S (configfile a), E exc]])
               | (Inr config, evs3) \<Rightarrow>
                   Option.bind (prom_client en config) (\<lambda>r.
                     Some ((case fst r of Return v \<Rightarrow> Return None | Exit n \<Rightarrow> Exit n | Raise exc \<Rightarrow> Raise exc),
                           lc1,
                           evs2 @ [Log DEBUG ''loading config file'' []] @ evs3 @
                           [Log DEBUG ''config file loaded'' []] @ snd (snd r))))))"

section \<open>Observations and example inputs\<close>

text \<open>The hosts whose resolution was attempted, in the order of the calls.\<close>

fun attempted :: "event list \<Rightarrow> yaml list" where
  "attempted [] = []"
| "attempted (Gethostbyname h # evs) = h # attempted evs"
| "attempted (ev # evs) = attempted evs"

text \<open>The value of a key in a mapping, or \<open>d\<close> when the mapping does not have the key.\<close>

definition or_default :: "(string \<times> yaml) list \<Rightarrow> string \<Rightarrow> yaml \<Rightarrow> yaml" where
  "or_default m k d = (case map_of m k of None \<Rightarrow> d | Some v \<Rightarrow> v)"

text \<open>Python's logging state at start: the root logger at \<^verbatim>\<open>WARNING\<close>, nothing else set.\<close>

definition initial_logging :: logcfg where
  "initial_logging = \<lparr>root_level = WARNING, root_handlers = [], logger_levels = []\<rparr>"

text \<open>
  An environment in which everything works: two host names resolve, the cluster answers,
  the port is free, and the configuration file exists and parses.
\<close>

definition example_config :: yaml where
  "example_config =
     YMap [(''cluster'', YMap [(''hosts'', YList [YStr ''weka01'', YStr ''weka02'']),
                               (''auth_token_file'', YStr ''auth-token.json'')]),
           (''exporter'', YMap [(''listen_port'', YInt 8001)])]"

definition env_ok :: env where
  "env_ok =
     \<lparr>gethostbyname = (\<lambda>h. if h = ''weka01'' then Inr ''10.0.0.1''
                            else if h = ''weka02'' then Inr ''10.0.0.2'' else Inl Gaierror),
      WekaCluster = (\<lambda>a. Inr (ClusterObj 0)),
      start_http_server = (\<lambda>p. None),
      path_exists = (\<lambda>p. p = ''./quota-export.yml''),
      open_file = (\<lambda>p. if p = ''./quota-export.yml'' then Inr ''config'' else Inl (OtherException ''FileNotFoundError'')),
      yaml_load_full = (\<lambda>s. if s = ''config'' then Inr example_config else Inl (OtherException ''YAMLError'')),
      yaml_load_plain = (\<lambda>s. Inl TypeError),
      int_of_str = (\<lambda>s. None),
      platform = ''Linux-6.1-x86_64''\<rparr>"

text \<open>A configuration with no \<^verbatim>\<open>cluster\<close> stanza.\<close>

definition config_no_cluster :: yaml where
  "config_no_cluster = YMap [(''exporter'', YMap [(''listen_port'', YInt 8001)])]"

text \<open>A configuration with two host names that do not resolve, among four.\<close>

definition config_two_bad_hosts :: yaml where
  "config_two_bad_hosts =
     YMap [(''cluster'', YMap [(''hosts'', YList [YStr ''weka01'', YStr ''nohost1'', YStr ''weka02'', YStr ''nohost2'']),
                               (''auth_token_file'', YStr ''auth-token.json'')]),
           (''exporter'', YMap [(''listen_port'', YInt 8001)])]"

text \<open>A configuration that sets \<^verbatim>\<open>exporter.timeout\<close> and \<^verbatim>\<open>cluster.mgmt_port\<close> itself.\<close>

definition config_timeout_5 :: yaml where
  "config_timeout_5 =
     YMap [(''cluster'', YMap [(''hosts'', YList [YStr ''weka01'']),
                               (''auth_token_file'', YStr ''auth-token.json''),
                               (''mgmt_port'', YInt 14001)]),
           (''exporter'', YMap [(''listen_port'', YInt 8001), (''timeout'', YInt 5)])]"

text \<open>
  A configuration with \<^verbatim>\<open>force_https\<close> set, the same after the defaults, and the constructor
  arguments it gives; a cluster that fails the TLS negotiation, and one that answers 403.
\<close>

definition config_force_https :: yaml where
  "config_force_https =
     YMap [(''cluster'', YMap [(''hosts'', YList [YStr ''weka01'', YStr ''weka02'']),
                               (''auth_token_file'', YStr ''auth-token.json''),
                               (''force_https'', YBool True)]),
           (''exporter'', YMap [(''listen_port'', YInt 8001)])]"

definition config_force_https_defaulted :: yaml where
  "config_force_https_defaulted =
     YMap [(''cluster'', YMap [(''hosts'', YList [YStr ''weka01'', YStr ''weka02'']),
                               (''auth_token_file'', YStr ''auth-token.json''),
                               (''force_https'', YBool True), (''filesystems'', YNull),
                               (''verify_cert'', YBool True), (''mgmt_port'', YInt 14000)]),
           (''exporter'', YMap [(''listen_port'', YInt 8001), (''timeout'', YInt 10),
                                (''backends_only'', YBool True), (''exceeded_only'', YBool True)])]"

definition args_force_https :: cluster_args where
  "args_force_https =
     \<lparr>arg_hosts = YList [YStr ''weka01'', YStr ''weka02''],
      arg_auth_token_file = YStr ''auth-token.json'',
      arg_force_https = YBool True, arg_verify_cert = YBool True,
      arg_backends_only = YBool True, arg_timeout = YInt 10,
      arg_mgmt_port = YInt 14000\<rparr>"

definition env_ssl :: env where
  "env_ssl = env_ok\<lparr>WekaCluster := (\<lambda>a. Inl SSLError)\<rparr>"

definition env_403 :: env where
  "env_403 = env_ok\<lparr>WekaCluster := (\<lambda>a. Inl (HTTPError 403))\<rparr>"

text \<open>
  The example configuration after the defaults, the constructor arguments it gives, and an
  environment in which the port is taken.
\<close>

definition example_config_defaulted :: yaml where
  "example_config_defaulted =
     YMap [(''cluster'', YMap [(''hosts'', YList [YStr ''weka01'', YStr ''weka02'']),
                               (''auth_token_file'', YStr ''auth-token.json''),
                               (''force_https'', YBool False), (''filesystems'', YNull),
                               (''verify_cert'', YBool True), (''mgmt_port'', YInt 14000)]),
           (''exporter'', YMap [(''listen_port'', YInt 8001), (''timeout'', YInt 10),
                                (''backends_only'', YBool True), (''exceeded_only'', YBool True)])]"

definition example_args :: cluster_args where
  "example_args =
     \<lparr>arg_hosts = YList [YStr ''weka01'', YStr ''weka02''],
      arg_auth_token_file = YStr ''auth-token.json'',
      arg_force_https = YBool False, arg_verify_cert = YBool True,
      arg_backends_only = YBool True, arg_timeout = YInt 10,
      arg_mgmt_port = YInt 14000\<rparr>"

definition env_port_busy :: env where
  "env_port_busy = env_ok\<lparr>start_http_server := (\<lambda>p. Some (OtherException ''OSError: [Errno 98] Address already in use''))\<rparr>"

text \<open>A configuration with no \<^verbatim>\<open>exporter.listen_port\<close>, the same after the defaults, and its arguments.\<close>

definition config_no_listen_port :: yaml where
  "config_no_listen_port =
     YMap [(''cluster'', YMap [(''hosts'', YList [YStr ''weka01'', YStr ''weka02'']),
                               (''auth_token_file'', YStr ''auth-token.json'')]),
           (''exporter'', YMap [(''timeout'', YInt 5)])]"

definition config_no_listen_port_defaulted :: yaml where
  "config_no_listen_port_defaulted =
     YMap [(''cluster'', YMap [(''hosts'', YList [YStr ''weka01'', YStr ''weka02'']),
                               (''auth_token_file'', YStr ''auth-token.json''),
                               (''force_https'', YBool False), (''filesystems'', YNull),
                               (''verify_cert'', YBool True), (''mgmt_port'', YInt 14000)]),
           (''exporter'', YMap [(''timeout'', YInt 5), (''backends_only'', YBool True),
                                (''exceeded_only'', YBool True)])]"

definition args_no_listen_port :: cluster_args where
  "args_no_listen_port =
     \<lparr>arg_hosts = YList [YStr ''weka01'', YStr ''weka02''],
      arg_auth_token_file = YStr ''auth-token.json'',
      arg_force_https = YBool False, arg_verify_cert = YBool True,
      arg_backends_only = YBool True, arg_timeout = YInt 5,
      arg_mgmt_port = YInt 14000\<rparr>"

text \<open>
  Command lines: \<^verbatim>\<open>--version\<close> with a configuration file that does not exist, and the defaults
  with \<^verbatim>\<open>--no_syslog\<close>. Environments in which the configuration file parses to a list, is
  not valid YAML, and cannot be opened.
\<close>

definition args_version :: args where
  "args_version = \<lparr>configfile = ''/nonexistent.yml'', no_syslog = False, verbosity = 0, version = True\<rparr>"

definition args_default :: args where
  "args_default = \<lparr>configfile = ''./quota-export.yml'', no_syslog = True, verbosity = 0, version = False\<rparr>"

definition env_list_file :: env where
  "env_list_file = env_ok\<lparr>open_file := (\<lambda>p. Inr ''- a''), yaml_load_full := (\<lambda>s. Inr (YList [YStr ''a'']))\<rparr>"

definition env_bad_yaml :: env where
  "env_bad_yaml = env_ok\<lparr>open_file := (\<lambda>p. Inr ''{''),
                          yaml_load_full := (\<lambda>s. Inl (OtherException ''yaml.parser.ParserError''))\<rparr>"

definition env_unreadable :: env where
  "env_unreadable = env_ok\<lparr>open_file := (\<lambda>p. Inl (OtherException ''PermissionError''))\<rparr>"

text \<open>A configuration whose \<^verbatim>\<open>exporter\<close> stanza is empty (\<^verbatim>\<open>exporter:\<close> with nothing under it).\<close>

definition config_null_exporter :: yaml where
  "config_null_exporter =
     YMap [(''cluster'', YMap [(''hosts'', YList [YStr ''weka01'']),
                               (''auth_token_file'', YStr ''auth-token.json'')]),
           (''exporter'', YNull)]"

section \<open>Auxiliary facts\<close>

lemma and_then_simps [simp]:
  "and_then (Inl e) f = Inl e"
  "and_then (Inr x) f = f x"
  by (simp_all add: and_then_def)

subsection \<open>Logging\<close>

lemma level_of_setLevel:
  "level_of (setLevel name lv lc) n = (if n = name then Some lv else level_of lc n)"
  by (simp add: level_of_def setLevel_def update_conv')

lemma root_level_setLevel: "root_level (setLevel name lv lc) = root_level lc"
  by (simp add: setLevel_def)

lemma root_handlers_setLevel: "root_handlers (setLevel name lv lc) = root_handlers lc"
  by (simp add: setLevel_def)

lemma configure_logging_levels:
  "level_of (fst (configure_logging en vb ds lc)) ''wekalib.wekaapi'' = Some (libloglevel (choose_logvars vb))"
  "level_of (fst (configure_logging en vb ds lc)) ''wekalib.wekacluster'' = Some (libloglevel (choose_logvars vb))"
  "root_level (fst (configure_logging en vb ds lc)) = loglevel (choose_logvars vb)"
  by (simp_all add: configure_logging_def Let_def split_beta level_of_setLevel root_level_setLevel)

lemma configure_logging_handlers:
  "root_handlers (fst (configure_logging en vb ds lc)) =
     root_handlers lc @ StreamHandler (console_format (choose_logvars vb)) #
       (if ds then []
        else [SysLogHandler (if take 5 (platform en) = ''macOS'' then ''/var/run/syslog'' else ''/dev/log'')
                (syslog_format (choose_logvars vb))])"
  by (simp add: configure_logging_def Let_def split_beta root_handlers_setLevel add_syslog_def addHandler_def)

subsection \<open>The loop over the hosts\<close>

lemma resolve_hosts_eq:
  "resolve_hosts en hosts err =
     (err \<or> list_ex (\<lambda>h. fst (try_resolve en h)) hosts, concat (map (\<lambda>h. snd (try_resolve en h)) hosts))"
  by (induction hosts arbitrary: err) (auto simp: split_beta Let_def)

lemma attempted_append: "attempted (xs @ ys) = attempted xs @ attempted ys"
  by (induction xs rule: attempted.induct) auto

lemma attempted_try_resolve: "attempted (snd (try_resolve en h)) = [h]"
  by (auto simp: try_resolve_def split: sum.splits)

lemma attempted_resolve: "attempted (concat (map (\<lambda>h. snd (try_resolve en h)) hosts)) = hosts"
  by (induction hosts) (auto simp: attempted_append attempted_try_resolve)

lemma try_resolve_gaierror:
  "py_gethostbyname en h = Inl Gaierror \<Longrightarrow>
   try_resolve en h =
     (True, [Gethostbyname h, Log CRITICAL ''Hostname {host} not resolvable - is it in /etc/hosts or DNS?'' [V h]])"
  by (simp add: try_resolve_def)

subsection \<open>The defaults\<close>

lemma default_key_step:
  assumes "map_of doc stanza = Some (YMap st)"
  shows "\<exists>doc' st'. default_key stanza k v (YMap doc) = Inr (YMap doc')
      \<and> map_of doc' stanza = Some (YMap st')
      \<and> map_of st' = [k \<mapsto> v] ++ map_of st
      \<and> (\<forall>s. s \<noteq> stanza \<longrightarrow> map_of doc' s = map_of doc s)"
proof (cases "map_of st k")
  case None
  then have "default_key stanza k v (YMap doc) = Inr (YMap (AList.update stanza (YMap (AList.update k v st)) doc))"
    using assms by (simp add: default_key_def)
  moreover have "map_of (AList.update k v st) = [k \<mapsto> v] ++ map_of st"
    using None by (auto simp: update_conv' map_add_def fun_eq_iff split: option.splits)
  ultimately show ?thesis
    by (intro exI[of _ "AList.update stanza (YMap (AList.update k v st)) doc"] exI[of _ "AList.update k v st"])
       (simp add: update_conv')
next
  case (Some x)
  then have "default_key stanza k v (YMap doc) = Inr (YMap doc)"
    using assms by (simp add: default_key_def)
  moreover have "map_of st = [k \<mapsto> v] ++ map_of st"
    using Some by (auto simp: map_add_def fun_eq_iff split: option.splits)
  ultimately show ?thesis
    using assms by (intro exI[of _ doc] exI[of _ st]) simp
qed

lemma run_defaults_stanza:
  assumes "map_of doc stanza = Some (YMap st)"
  shows "\<exists>doc' st'. run_defaults (map (\<lambda>kv. (stanza, fst kv, snd kv)) kvs @ rest) (YMap doc) = run_defaults rest (YMap doc')
      \<and> map_of doc' stanza = Some (YMap st')
      \<and> map_of st' = map_of kvs ++ map_of st
      \<and> (\<forall>s. s \<noteq> stanza \<longrightarrow> map_of doc' s = map_of doc s)"
  using assms
proof (induction kvs arbitrary: doc st)
  case Nil
  then show ?case by auto
next
  case (Cons kv kvs)
  obtain k v where kv: "kv = (k, v)" by (cases kv)
  from default_key_step[OF Cons.prems, of k v]
  obtain doc1 st1 where s1: "default_key stanza k v (YMap doc) = Inr (YMap doc1)"
    "map_of doc1 stanza = Some (YMap st1)" "map_of st1 = [k \<mapsto> v] ++ map_of st"
    "\<forall>s. s \<noteq> stanza \<longrightarrow> map_of doc1 s = map_of doc s" by blast
  from Cons.IH[OF s1(2)]
  obtain doc2 st2 where s2: "run_defaults (map (\<lambda>kv. (stanza, fst kv, snd kv)) kvs @ rest) (YMap doc1) = run_defaults rest (YMap doc2)"
    "map_of doc2 stanza = Some (YMap st2)" "map_of st2 = map_of kvs ++ map_of st1"
    "\<forall>s. s \<noteq> stanza \<longrightarrow> map_of doc2 s = map_of doc1 s" by blast
  have m: "map_of st2 = map_of (kv # kvs) ++ map_of st"
    unfolding s2(3) s1(3) kv by (auto simp: map_add_def fun_eq_iff split: option.splits)
  have a: "run_defaults (map (\<lambda>kv. (stanza, fst kv, snd kv)) (kv # kvs) @ rest) (YMap doc) = run_defaults rest (YMap doc2)"
    using s1(1) s2(1) by (simp add: kv)
  have d: "\<forall>s. s \<noteq> stanza \<longrightarrow> map_of doc2 s = map_of doc s"
    using s1(4) s2(4) by simp
  show ?case
    using a s2(2) m d by blast
qed

lemma apply_defaults_maps:
  assumes "map_of doc ''cluster'' = Some (YMap c)" and "map_of doc ''exporter'' = Some (YMap e)"
  shows "\<exists>doc' c' e'. apply_defaults (YMap doc) = (None, YMap doc')
      \<and> map_of doc' ''cluster'' = Some (YMap c') \<and> map_of doc' ''exporter'' = Some (YMap e')
      \<and> (\<forall>s. s \<noteq> ''cluster'' \<and> s \<noteq> ''exporter'' \<longrightarrow> map_of doc' s = map_of doc s)
      \<and> map_of c' = map_of [(''force_https'', YBool False), (''filesystems'', YNull),
                             (''verify_cert'', YBool True), (''mgmt_port'', YInt 14000)] ++ map_of c
      \<and> map_of e' = map_of [(''timeout'', YInt 10), (''backends_only'', YBool True),
                             (''exceeded_only'', YBool True)] ++ map_of e"
proof -
  let ?ck = "[(''force_https'', YBool False), (''filesystems'', YNull), (''verify_cert'', YBool True), (''mgmt_port'', YInt 14000)]"
  let ?ek = "[(''timeout'', YInt 10), (''backends_only'', YBool True), (''exceeded_only'', YBool True)]"
  have tbl: "optional_defaults = map (\<lambda>kv. (''cluster'', fst kv, snd kv)) ?ck @ (map (\<lambda>kv. (''exporter'', fst kv, snd kv)) ?ek @ [])"
    by (simp add: optional_defaults_def)
  from run_defaults_stanza[OF assms(1), of ?ck "map (\<lambda>kv. (''exporter'', fst kv, snd kv)) ?ek @ []"]
  obtain doc1 c1 where s1:
    "run_defaults optional_defaults (YMap doc) = run_defaults (map (\<lambda>kv. (''exporter'', fst kv, snd kv)) ?ek @ []) (YMap doc1)"
    "map_of doc1 ''cluster'' = Some (YMap c1)" "map_of c1 = map_of ?ck ++ map_of c"
    "\<forall>s. s \<noteq> ''cluster'' \<longrightarrow> map_of doc1 s = map_of doc s"
    unfolding tbl by blast
  have e1: "map_of doc1 ''exporter'' = Some (YMap e)"
    using s1(4) assms(2) by simp
  from run_defaults_stanza[OF e1, of ?ek "[]"]
  obtain doc2 e2 where s2:
    "run_defaults (map (\<lambda>kv. (''exporter'', fst kv, snd kv)) ?ek @ []) (YMap doc1) = run_defaults [] (YMap doc2)"
    "map_of doc2 ''exporter'' = Some (YMap e2)" "map_of e2 = map_of ?ek ++ map_of e"
    "\<forall>s. s \<noteq> ''exporter'' \<longrightarrow> map_of doc2 s = map_of doc1 s"
    by blast
  have c2: "map_of doc2 ''cluster'' = Some (YMap c1)"
    using s2(4) s1(2) by simp
  have other: "\<forall>s. s \<noteq> ''cluster'' \<and> s \<noteq> ''exporter'' \<longrightarrow> map_of doc2 s = map_of doc s"
    using s1(4) s2(4) by simp
  have run: "apply_defaults (YMap doc) = (None, YMap doc2)"
    unfolding apply_defaults_def s1(1) s2(1) by simp
  show ?thesis
    using run c2 s2(2) other s1(3) s2(3) by blast
qed

subsection \<open>The checks before the defaults\<close>

lemma try_resolve_ok:
  "\<not> fst (try_resolve en h) \<Longrightarrow> snd (try_resolve en h) = [Gethostbyname h]"
  by (auto simp: try_resolve_def split: sum.splits if_splits)

lemma resolve_events_ok:
  "\<not> list_ex (\<lambda>h. fst (try_resolve en h)) hosts \<Longrightarrow>
   concat (map (\<lambda>h. snd (try_resolve en h)) hosts) = map Gethostbyname hosts"
  by (induction hosts) (auto simp: try_resolve_ok)

lemma check_passes_events:
  assumes "check_hosts_and_stanzas en config = (None, evs)"
  shows "\<exists>hosts. and_then (getitem2 config ''cluster'' ''hosts'') iter = Inr hosts
          \<and> evs = map Gethostbyname hosts
          \<and> contains ''cluster'' config = Inr True \<and> contains ''exporter'' config = Inr True"
  using assms
  by (auto simp: check_hosts_and_stanzas_def resolve_hosts_eq resolve_events_ok
      split: sum.splits if_splits)

lemma check_passes_iff:
  assumes "and_then (getitem2 config ''cluster'' ''hosts'') iter = Inr hosts"
    and "list_all (\<lambda>h. \<not> isl (py_gethostbyname en h)) hosts"
    and "contains ''exporter'' config = Inr True"
  shows "check_hosts_and_stanzas en config = (None, map Gethostbyname hosts)"
proof -
  have ok: "\<not> list_ex (\<lambda>h. fst (try_resolve en h)) hosts"
    using assms(2) by (induction hosts) (auto simp: try_resolve_def split: sum.splits)
  have c: "contains ''cluster'' config = Inr True"
    using assms(1) by (cases config) (auto simp: getitem2_def split: option.splits)
  show ?thesis
    using assms(1,3) ok c
    by (simp add: check_hosts_and_stanzas_def resolve_hosts_eq resolve_events_ok)
qed

subsection \<open>The function after the defaults\<close>

lemma setup_after_defaults:
  assumes "check_hosts_and_stanzas en config = (None, evs0)"
    and "apply_defaults config = (None, config1)"
  shows "prom_client_setup en config =
     (case connect en config1 of
        (Inl out, evs1) \<Rightarrow> (Inl out, config1, evs0 @ evs1)
      | (Inr obj, evs1) \<Rightarrow>
          (fst (start_server en config1 obj), config1, evs0 @ evs1 @ snd (start_server en config1 obj)))"
  unfolding prom_client_setup_def assms
  by (cases "connect en config1"; cases "fst (connect en config1)") (simp_all add: split_beta)

lemma setup_config_after_defaults:
  assumes "check_hosts_and_stanzas en config = (None, evs0)"
    and "apply_defaults config = (None, config1)"
  shows "fst (snd (prom_client_setup en config)) = config1"
  unfolding setup_after_defaults[OF assms]
  by (cases "connect en config1"; cases "fst (connect en config1)") simp_all

lemma example_check_passes:
  "check_hosts_and_stanzas env_ok example_config = (None, [Gethostbyname (YStr ''weka01''), Gethostbyname (YStr ''weka02'')])"
  by (simp add: check_hosts_and_stanzas_def example_config_def getitem2_def env_ok_def try_resolve_def)

lemma timeout_5_check_passes:
  "check_hosts_and_stanzas env_ok config_timeout_5 = (None, [Gethostbyname (YStr ''weka01'')])"
  by (simp add: check_hosts_and_stanzas_def config_timeout_5_def getitem2_def env_ok_def try_resolve_def)

subsection \<open>The events of each stage\<close>

lemma connect_failed_logs:
  "ev \<in> set (connect_failed exc) \<Longrightarrow> \<exists>m a. ev = Log CRITICAL m a"
  by (cases exc) (auto simp: connect_failed_def split: if_splits)

lemma connect_cases:
  assumes "connect en config = (r, evs1)"
  shows "(\<exists>exc. r = Inl (Raise exc) \<and> evs1 = [])
       \<or> (\<exists>t exc. r = Inl (Return None) \<and> get_cluster_args config = Inl exc
             \<and> evs1 = Log INFO ''Timeout set to {config['exporter']['timeout']} secs'' [V t] # connect_failed exc)
       \<or> (\<exists>t cargs exc. r = Inl (Return None) \<and> WekaCluster en cargs = Inl exc
             \<and> evs1 = Log INFO ''Timeout set to {config['exporter']['timeout']} secs'' [V t] # NewWekaCluster cargs # connect_failed exc)
       \<or> (\<exists>t cargs obj. r = Inr obj \<and> WekaCluster en cargs = Inr obj
             \<and> evs1 = [Log INFO ''Timeout set to {config['exporter']['timeout']} secs'' [V t], NewWekaCluster cargs])"
  using assms
  by (auto simp: connect_def Let_def split: sum.splits)

lemma start_server_cases:
  assumes "start_server en config obj = (r, evs2)"
  shows "(\<exists>exc. r = Inl (Raise exc) \<and> evs2 = [NewCollector config obj])
       \<or> (\<exists>port exc. r = Inl (Return (Some 1)) \<and> py_int en port = Inl exc
             \<and> evs2 = [NewCollector config obj,
                        Log INFO ''starting http server on port {config['exporter']['listen_port']}'' [V port],
                        Log CRITICAL ''Unable to start http server on port {config['exporter']['listen_port']}: {exc}'' [V port, E exc]])
       \<or> (\<exists>port p exc. r = Inl (Return (Some 1)) \<and> start_http_server en p = Some exc
             \<and> evs2 = [NewCollector config obj,
                        Log INFO ''starting http server on port {config['exporter']['listen_port']}'' [V port],
                        StartHttpServer p,
                        Log CRITICAL ''Unable to start http server on port {config['exporter']['listen_port']}: {exc}'' [V port, E exc]])
       \<or> (\<exists>port p. r = Inr (Collector config obj) \<and> start_http_server en p = None
             \<and> evs2 = [NewCollector config obj,
                        Log INFO ''starting http server on port {config['exporter']['listen_port']}'' [V port],
                        StartHttpServer p, Register (Collector config obj)])"
  using assms
  by (auto simp: start_server_def Let_def split: sum.splits option.splits)


lemma try_resolve_events:
  "ev \<in> set (snd (try_resolve en h)) \<Longrightarrow> (\<exists>x. ev = Gethostbyname x) \<or> (\<exists>m a. ev = Log CRITICAL m a)"
  by (auto simp: try_resolve_def split: sum.splits if_splits)

lemma check_events:
  assumes "ev \<in> set (snd (check_hosts_and_stanzas en config))"
  shows "(\<exists>x. ev = Gethostbyname x) \<or> (\<exists>l m a. ev = Log l m a)"
proof -
  have r: "(\<exists>x. ev = Gethostbyname x) \<or> (\<exists>l m a. ev = Log l m a)"
    if "ev \<in> set (concat (map (\<lambda>h. snd (try_resolve en h)) hosts))" for hosts
    using that try_resolve_events[of ev en] by auto
  show ?thesis
    using assms r
    by (auto simp: check_hosts_and_stanzas_def resolve_hosts_eq split: sum.splits if_splits)
qed

lemma setup_cases:
  assumes "prom_client_setup en config = (r, config', evs)"
  shows "(\<exists>out. check_hosts_and_stanzas en config = (Some out, evs) \<and> r = Inl out \<and> config' = config)
       \<or> (\<exists>hosts exc. apply_defaults config = (Some exc, config') \<and> r = Inl (Raise exc)
             \<and> evs = map Gethostbyname hosts)
       \<or> (\<exists>hosts out evs1. apply_defaults config = (None, config') \<and> connect en config' = (Inl out, evs1)
             \<and> r = Inl out \<and> evs = map Gethostbyname hosts @ evs1)
       \<or> (\<exists>hosts obj evs1 evs2. apply_defaults config = (None, config') \<and> connect en config' = (Inr obj, evs1)
             \<and> start_server en config' obj = (r, evs2) \<and> evs = map Gethostbyname hosts @ evs1 @ evs2)"
proof (cases "check_hosts_and_stanzas en config")
  case (Pair stop evs0)
  show ?thesis
  proof (cases stop)
    case (Some out)
    then show ?thesis using assms Pair by (simp add: prom_client_setup_def)
  next
    case None
    with Pair have chk: "check_hosts_and_stanzas en config = (None, evs0)" by simp
    from check_passes_events[OF chk] obtain hosts where h: "evs0 = map Gethostbyname hosts"
      by (elim exE conjE)
    show ?thesis
    proof (cases "apply_defaults config")
      case (Pair raised config1)
      note ad = this
      show ?thesis
      proof (cases raised)
        case (Some exc)
        then show ?thesis using assms chk ad h by (auto simp: prom_client_setup_def)
      next
        case None
        with ad have ad': "apply_defaults config = (None, config1)" by simp
        show ?thesis
          using assms h unfolding setup_after_defaults[OF chk ad']
          by (cases "connect en config1"; cases "fst (connect en config1)";
              cases "start_server en config1 (projr (fst (connect en config1)))")
             (auto simp: ad')
      qed
    qed
  qed
qed

lemma prom_client_stops:
  "prom_client_setup en config = (Inl out, config', evs) \<Longrightarrow>
   prom_client en config = Some (out, config', evs)"
  by (simp add: prom_client_def)

lemma map_Gethostbyname_no_cluster [simp]:
  "NewWekaCluster a \<notin> set (map Gethostbyname hosts)"
  "StartHttpServer p \<notin> set (map Gethostbyname hosts)"
  "Register col \<notin> set (map Gethostbyname hosts)"
  by auto

lemma connect_failed_no_cluster [simp]:
  "NewWekaCluster a \<notin> set (connect_failed exc)"
  "StartHttpServer p \<notin> set (connect_failed exc)"
  "Register col \<notin> set (connect_failed exc)"
  using connect_failed_logs[of _ exc] by blast+

lemma check_no_cluster [simp]:
  "NewWekaCluster a \<notin> set (snd (check_hosts_and_stanzas en config))"
  "StartHttpServer p \<notin> set (snd (check_hosts_and_stanzas en config))"
  "Register col \<notin> set (snd (check_hosts_and_stanzas en config))"
  using check_events[of _ en config] by blast+

lemma setup_cluster_event:
  assumes "prom_client_setup en config = (r, config', evs)"
    and "NewWekaCluster cargs \<in> set evs"
  shows "(\<exists>hosts t exc. WekaCluster en cargs = Inl exc \<and> r = Inl (Return None)
            \<and> evs = map Gethostbyname hosts @
                 Log INFO ''Timeout set to {config['exporter']['timeout']} secs'' [V t] #
                 NewWekaCluster cargs # connect_failed exc)
       \<or> (\<exists>obj. WekaCluster en cargs = Inr obj)"
  using setup_cases[OF assms(1)]
proof (elim disjE exE conjE)
  fix out assume "check_hosts_and_stanzas en config = (Some out, evs)"
  then have "evs = snd (check_hosts_and_stanzas en config)" by simp
  with assms(2) show ?thesis by simp
next
  fix hosts exc assume "evs = map Gethostbyname hosts"
  with assms(2) show ?thesis by auto
next
  fix hosts out evs1
  assume c: "connect en config' = (Inl out, evs1)" and r: "r = Inl out"
    and e: "evs = map Gethostbyname hosts @ evs1"
  from assms(2) e have m: "NewWekaCluster cargs \<in> set evs1" by auto
  from connect_cases[OF c] m r e show ?thesis
    by (elim disjE exE conjE) auto
next
  fix hosts obj evs1 evs2
  assume c: "connect en config' = (Inr obj, evs1)" and s: "start_server en config' obj = (r, evs2)"
    and e: "evs = map Gethostbyname hosts @ evs1 @ evs2"
  from start_server_cases[OF s] have n: "NewWekaCluster cargs \<notin> set evs2"
    by (elim disjE exE conjE) auto
  from assms(2) e n have m: "NewWekaCluster cargs \<in> set evs1" by auto
  from connect_cases[OF c] m show ?thesis
    by (elim disjE exE conjE) auto
qed

lemma connect_stops_outcome:
  assumes "connect en c = (Inl out, evs1)"
  shows "out = Return None \<or> (\<exists>exc. out = Raise exc)"
  using connect_cases[OF assms] by (elim disjE exE conjE) auto

lemma getitem2_YMap:
  "map_of doc stanza = Some (YMap st) \<Longrightarrow>
   getitem2 (YMap doc) stanza k = (case map_of st k of None \<Rightarrow> Inl (KeyError k) | Some v \<Rightarrow> Inr v)"
  by (simp add: getitem2_def)

subsection \<open>Runs on the example inputs\<close>

lemmas run_simps =
  prom_client_setup_def check_hosts_and_stanzas_def getitem2_def apply_defaults_def
  optional_defaults_def default_key_def connect_def get_cluster_args_def connect_failed_def
  start_server_def try_resolve_def Let_def env_ok_def

lemma setup_ssl:
  "prom_client_setup env_ssl config_force_https =
     (Inl (Return None), config_force_https_defaulted,
      [Gethostbyname (YStr ''weka01''), Gethostbyname (YStr ''weka02''),
       Log INFO ''Timeout set to {config['exporter']['timeout']} secs'' [V (YInt 10)],
       NewWekaCluster args_force_https,
       Log CRITICAL ''SSL Error: Only weka v3.10 and above support https, and force_https is set in config file.'' [],
       Log CRITICAL ''SSL Error: Is this cluster < v3.10? Please verify configuration'' [],
       Log CRITICAL ''Error is {exc}'' [E SSLError]])"
  by (simp add: run_simps env_ssl_def config_force_https_def config_force_https_defaulted_def
      args_force_https_def)

lemma setup_403:
  "prom_client_setup env_403 config_force_https =
     (Inl (Return None), config_force_https_defaulted,
      [Gethostbyname (YStr ''weka01''), Gethostbyname (YStr ''weka02''),
       Log INFO ''Timeout set to {config['exporter']['timeout']} secs'' [V (YInt 10)],
       NewWekaCluster args_force_https,
       Log CRITICAL ''Cluster returned permission error - is the userid level ReadOnly or above?'' []])"
  by (simp add: run_simps env_403_def config_force_https_def config_force_https_defaulted_def
      args_force_https_def)

lemma setup_port_busy:
  "prom_client_setup env_port_busy example_config =
     (Inl (Return (Some 1)), example_config_defaulted,
      [Gethostbyname (YStr ''weka01''), Gethostbyname (YStr ''weka02''),
       Log INFO ''Timeout set to {config['exporter']['timeout']} secs'' [V (YInt 10)],
       NewWekaCluster example_args,
       NewCollector example_config_defaulted (ClusterObj 0),
       Log INFO ''starting http server on port {config['exporter']['listen_port']}'' [V (YInt 8001)],
       StartHttpServer 8001,
       Log CRITICAL ''Unable to start http server on port {config['exporter']['listen_port']}: {exc}''
         [V (YInt 8001), E (OtherException ''OSError: [Errno 98] Address already in use'')]])"
  by (simp add: run_simps env_port_busy_def example_config_def example_config_defaulted_def
      example_args_def)

lemma defaults_no_listen_port:
  "apply_defaults config_no_listen_port = (None, config_no_listen_port_defaulted)"
  by (simp add: run_simps config_no_listen_port_def config_no_listen_port_defaulted_def)

subsection \<open>The final loop\<close>

text \<open>
  The loop never stops: a run that reaches it has no result. Every run that stops before
  it has one (\<open>prom_client_stops\<close>).
\<close>

lemma serve_forever_never_returns: "serve_forever secs = None"
proof -
  have "False" if r: "serve_forever secs = Some r" for r
  proof (rule serve_forever.raw_induct[where P = "\<lambda>x y. False", OF _ r])
    fix f :: "nat \<Rightarrow> (outcome \<times> event list) option" and x y
    assume ih: "\<And>x y. f x = Some y \<Longrightarrow> False"
      and b: "Option.bind (f x) (\<lambda>r. Some (fst r, Sleep x # snd r)) = Some y"
    from b obtain z where "f x = Some z" by (cases "f x") auto
    then show False by (rule ih)
  qed
  then show ?thesis by (cases "serve_forever secs") auto
qed

lemma prom_client_serves_forever:
  "prom_client_setup en config = (Inr col, config', evs) \<Longrightarrow> prom_client en config = None"
  by (simp add: prom_client_def serve_forever_never_returns)

lemma example_run_serves_forever: "prom_client env_ok example_config = None"
proof -
  have "fst (prom_client_setup env_ok example_config) = Inr (Collector example_config_defaulted (ClusterObj 0))"
    by (simp add: run_simps example_config_def example_config_defaulted_def)
  then show ?thesis
    by (cases "prom_client_setup env_ok example_config") (auto simp: prom_client_serves_forever)
qed

subsection \<open>Missing stanzas, and a stanza that is not a mapping\<close>

text \<open>
  Every configuration mapping without the \<^verbatim>\<open>cluster\<close> key stops at the first read of
  \<^verbatim>\<open>config['cluster']\<close>; one without the \<^verbatim>\<open>exporter\<close> key, whose hosts resolve, reaches the
  stanza test, logs and exits with status 1. A stanza that is \<^verbatim>\<open>None\<close> passes the stanza test
  (the key is there) and raises \<^verbatim>\<open>TypeError\<close> at its first membership test.
\<close>

lemma missing_cluster_always_KeyError:
  "map_of doc ''cluster'' = None \<Longrightarrow>
   prom_client en (YMap doc) = Some (Raise (KeyError ''cluster''), YMap doc, [])"
  by (simp add: prom_client_def prom_client_setup_def check_hosts_and_stanzas_def getitem2_def)

lemma missing_exporter_exits:
  assumes "getitem2 (YMap doc) ''cluster'' ''hosts'' = Inr (YList hosts)"
    and "list_all (\<lambda>h. \<not> isl (py_gethostbyname en h)) hosts"
    and "map_of doc ''exporter'' = None"
  shows "prom_client en (YMap doc) =
     Some (Exit 1, YMap doc,
           map Gethostbyname hosts @
           [Log ERROR '''exporter:' stanza missing from .yml file - version mismatch between .yml and exporter version?'' []])"
proof -
  have ok: "\<not> list_ex (\<lambda>h. fst (try_resolve en h)) hosts"
    using assms(2) by (induction hosts) (auto simp: try_resolve_def split: sum.splits)
  have c: "map_of doc ''cluster'' \<noteq> None"
    using assms(1) by (auto simp: getitem2_def split: option.splits)
  have "check_hosts_and_stanzas en (YMap doc) =
     (Some (Exit 1), map Gethostbyname hosts @
           [Log ERROR '''exporter:' stanza missing from .yml file - version mismatch between .yml and exporter version?'' []])"
    using assms(1,3) ok c
    by (simp add: check_hosts_and_stanzas_def resolve_hosts_eq resolve_events_ok)
  then show ?thesis
    by (simp add: prom_client_def prom_client_setup_def)
qed

lemma null_exporter_stanza_raises:
  "prom_client env_ok config_null_exporter =
     Some (Raise TypeError,
           YMap [(''cluster'', YMap [(''hosts'', YList [YStr ''weka01'']),
                                     (''auth_token_file'', YStr ''auth-token.json''),
                                     (''force_https'', YBool False), (''filesystems'', YNull),
                                     (''verify_cert'', YBool True), (''mgmt_port'', YInt 14000)]),
                 (''exporter'', YNull)],
           [Gethostbyname (YStr ''weka01'')])"
  by (simp add: prom_client_def run_simps config_null_exporter_def)

section \<open>The claims\<close>

subsection \<open>C1: a configuration without the \<^verbatim>\<open>cluster\<close> stanza\<close>

text \<open>
  C1 says that a configuration mapping with no \<^verbatim>\<open>cluster\<close> stanza makes validation log the
  version-mismatch message and exit with a non-zero status, before any host is resolved.
  The source reads \<^verbatim>\<open>config['cluster']['hosts']\<close> at line 41, before the test
  \<^verbatim>\<open>'cluster' not in config\<close> of line 54: on the configuration
  \<^verbatim>\<open>{'exporter': {'listen_port': 8001}}\<close> the function stops with an uncaught
  \<^verbatim>\<open>KeyError('cluster')\<close>, having logged nothing and resolved nothing.
  The same holds for every mapping without the key (\<open>missing_cluster_always_KeyError\<close>),
  while the test of the \<^verbatim>\<open>exporter\<close> stanza does what C1 describes (\<open>missing_exporter_exits\<close>).
\<close>

theorem missing_cluster_raises_KeyError:
  "prom_client env_ok config_no_cluster = Some (Raise (KeyError ''cluster''), config_no_cluster, [])"
  by (simp add: prom_client_def prom_client_setup_def check_hosts_and_stanzas_def getitem2_def
      config_no_cluster_def)

subsection \<open>C2: the defaults\<close>

text \<open>
  C2: for every configuration that passes the host and stanza checks and whose two stanzas
  are mappings (the configuration of the data model), the configuration the function leaves
  has in each stanza the keys it had, with their values, and each optional key that was
  absent with its default (cluster: \<^verbatim>\<open>force_https\<close> false, \<^verbatim>\<open>filesystems\<close> null,
  \<^verbatim>\<open>verify_cert\<close> true, \<^verbatim>\<open>mgmt_port\<close> 14000; exporter: \<^verbatim>\<open>timeout\<close> 10, \<^verbatim>\<open>backends_only\<close> true,
  \<^verbatim>\<open>exceeded_only\<close> true); every other top-level key is unchanged. In particular a missing
  \<^verbatim>\<open>exporter.timeout\<close> becomes 10 and \<^verbatim>\<open>exporter.timeout: 5\<close> stays 5.
  A stanza of the data model is a mapping. The checks themselves only pass when the
  \<^verbatim>\<open>cluster\<close> stanza is one; an \<^verbatim>\<open>exporter\<close> stanza that is not (an empty \<^verbatim>\<open>exporter:\<close>)
  is outside the data model, and there the function stops with \<^verbatim>\<open>TypeError\<close>
  (\<open>null_exporter_stanza_raises\<close>).
\<close>

theorem defaults_applied:
  assumes "fst (check_hosts_and_stanzas en (YMap doc)) = None"
    and "map_of doc ''cluster'' = Some (YMap c)"
    and "map_of doc ''exporter'' = Some (YMap e)"
  shows "\<exists>doc' c' e'. fst (snd (prom_client_setup en (YMap doc))) = YMap doc'
      \<and> map_of doc' ''cluster'' = Some (YMap c') \<and> map_of doc' ''exporter'' = Some (YMap e')
      \<and> (\<forall>s. s \<noteq> ''cluster'' \<and> s \<noteq> ''exporter'' \<longrightarrow> map_of doc' s = map_of doc s)
      \<and> map_of c' = map_of [(''force_https'', YBool False), (''filesystems'', YNull),
                             (''verify_cert'', YBool True), (''mgmt_port'', YInt 14000)] ++ map_of c
      \<and> map_of e' = map_of [(''timeout'', YInt 10), (''backends_only'', YBool True),
                             (''exceeded_only'', YBool True)] ++ map_of e
      \<and> (map_of e ''timeout'' = None \<longrightarrow> map_of e' ''timeout'' = Some (YInt 10))
      \<and> (map_of e ''timeout'' = Some (YInt 5) \<longrightarrow> map_of e' ''timeout'' = Some (YInt 5))"
proof -
  obtain evs0 where chk: "check_hosts_and_stanzas en (YMap doc) = (None, evs0)"
    using assms(1) by (cases "check_hosts_and_stanzas en (YMap doc)") simp
  from apply_defaults_maps[OF assms(2,3)] show ?thesis
  proof (elim exE conjE)
    fix doc' c' e'
    assume d1: "apply_defaults (YMap doc) = (None, YMap doc')"
      and d2: "map_of doc' ''cluster'' = Some (YMap c')"
      and d3: "map_of doc' ''exporter'' = Some (YMap e')"
      and d4: "\<forall>s. s \<noteq> ''cluster'' \<and> s \<noteq> ''exporter'' \<longrightarrow> map_of doc' s = map_of doc s"
      and d5: "map_of c' = map_of [(''force_https'', YBool False), (''filesystems'', YNull),
                             (''verify_cert'', YBool True), (''mgmt_port'', YInt 14000)] ++ map_of c"
      and d6: "map_of e' = map_of [(''timeout'', YInt 10), (''backends_only'', YBool True),
                             (''exceeded_only'', YBool True)] ++ map_of e"
    have cfg: "fst (snd (prom_client_setup en (YMap doc))) = YMap doc'"
      by (rule setup_config_after_defaults[OF chk d1])
    have t1: "map_of e ''timeout'' = None \<longrightarrow> map_of e' ''timeout'' = Some (YInt 10)"
      unfolding d6 by (simp add: map_add_def)
    have t2: "map_of e ''timeout'' = Some (YInt 5) \<longrightarrow> map_of e' ''timeout'' = Some (YInt 5)"
      unfolding d6 by (simp add: map_add_def)
    show ?thesis
      apply (rule exI[of _ doc'], rule exI[of _ c'], rule exI[of _ e'])
      apply (intro conjI)
             apply (rule cfg, rule d2, rule d3, rule d4, rule d5, rule d6, rule t1, rule t2)
      done
  qed
qed

theorem defaults_applied_witness:
  "fst (check_hosts_and_stanzas env_ok example_config) = None
   \<and> (\<exists>doc' c' e'. fst (snd (prom_client_setup env_ok example_config)) = YMap doc'
        \<and> map_of doc' ''cluster'' = Some (YMap c') \<and> map_of doc' ''exporter'' = Some (YMap e')
        \<and> map_of e' ''timeout'' = Some (YInt 10)
        \<and> map_of e' ''listen_port'' = Some (YInt 8001)
        \<and> map_of c' ''mgmt_port'' = Some (YInt 14000))
   \<and> fst (check_hosts_and_stanzas env_ok config_timeout_5) = None
   \<and> (\<exists>doc' c' e'. fst (snd (prom_client_setup env_ok config_timeout_5)) = YMap doc'
        \<and> map_of doc' ''cluster'' = Some (YMap c') \<and> map_of doc' ''exporter'' = Some (YMap e')
        \<and> map_of e' ''timeout'' = Some (YInt 5)
        \<and> map_of e' ''backends_only'' = Some (YBool True)
        \<and> map_of c' ''mgmt_port'' = Some (YInt 14001))"
proof -
  let ?c1 = "[(''hosts'', YList [YStr ''weka01'', YStr ''weka02'']), (''auth_token_file'', YStr ''auth-token.json'')]"
  let ?e1 = "[(''listen_port'', YInt 8001)]"
  let ?c2 = "[(''hosts'', YList [YStr ''weka01'']), (''auth_token_file'', YStr ''auth-token.json''), (''mgmt_port'', YInt 14001)]"
  let ?e2 = "[(''listen_port'', YInt 8001), (''timeout'', YInt 5)]"
  have x1: "example_config = YMap [(''cluster'', YMap ?c1), (''exporter'', YMap ?e1)]"
    by (simp add: example_config_def)
  have x2: "config_timeout_5 = YMap [(''cluster'', YMap ?c2), (''exporter'', YMap ?e2)]"
    by (simp add: config_timeout_5_def)
  have a1: "fst (check_hosts_and_stanzas env_ok example_config) = None"
    by (simp add: example_check_passes)
  have a2: "fst (check_hosts_and_stanzas env_ok config_timeout_5) = None"
    by (simp add: timeout_5_check_passes)
  have r1: "\<exists>doc' c' e'. fst (snd (prom_client_setup env_ok example_config)) = YMap doc'
        \<and> map_of doc' ''cluster'' = Some (YMap c') \<and> map_of doc' ''exporter'' = Some (YMap e')
        \<and> map_of e' ''timeout'' = Some (YInt 10)
        \<and> map_of e' ''listen_port'' = Some (YInt 8001)
        \<and> map_of c' ''mgmt_port'' = Some (YInt 14000)"
    using defaults_applied[OF a1[unfolded x1], of ?c1 ?e1, folded x1]
  proof (elim meta_impE exE conjE)
    fix doc' c' e'
    assume d: "fst (snd (prom_client_setup env_ok example_config)) = YMap doc'"
      "map_of doc' ''cluster'' = Some (YMap c')" "map_of doc' ''exporter'' = Some (YMap e')"
      "map_of c' = map_of [(''force_https'', YBool False), (''filesystems'', YNull),
                             (''verify_cert'', YBool True), (''mgmt_port'', YInt 14000)] ++ map_of ?c1"
      "map_of e' = map_of [(''timeout'', YInt 10), (''backends_only'', YBool True),
                             (''exceeded_only'', YBool True)] ++ map_of ?e1"
    have "map_of e' ''timeout'' = Some (YInt 10)" "map_of e' ''listen_port'' = Some (YInt 8001)"
      "map_of c' ''mgmt_port'' = Some (YInt 14000)"
      unfolding d(4,5) by (simp_all add: map_add_def)
    with d(1-3) show ?thesis by (intro exI conjI)
  qed simp_all
  have r2: "\<exists>doc' c' e'. fst (snd (prom_client_setup env_ok config_timeout_5)) = YMap doc'
        \<and> map_of doc' ''cluster'' = Some (YMap c') \<and> map_of doc' ''exporter'' = Some (YMap e')
        \<and> map_of e' ''timeout'' = Some (YInt 5)
        \<and> map_of e' ''backends_only'' = Some (YBool True)
        \<and> map_of c' ''mgmt_port'' = Some (YInt 14001)"
    using defaults_applied[OF a2[unfolded x2], of ?c2 ?e2, folded x2]
  proof (elim meta_impE exE conjE)
    fix doc' c' e'
    assume d: "fst (snd (prom_client_setup env_ok config_timeout_5)) = YMap doc'"
      "map_of doc' ''cluster'' = Some (YMap c')" "map_of doc' ''exporter'' = Some (YMap e')"
      "map_of c' = map_of [(''force_https'', YBool False), (''filesystems'', YNull),
                             (''verify_cert'', YBool True), (''mgmt_port'', YInt 14000)] ++ map_of ?c2"
      "map_of e' = map_of [(''timeout'', YInt 10), (''backends_only'', YBool True),
                             (''exceeded_only'', YBool True)] ++ map_of ?e2"
    have "map_of e' ''timeout'' = Some (YInt 5)" "map_of e' ''backends_only'' = Some (YBool True)"
      "map_of c' ''mgmt_port'' = Some (YInt 14001)"
      unfolding d(4,5) by (simp_all add: map_add_def)
    with d(1-3) show ?thesis by (intro exI conjI)
  qed simp_all
  show ?thesis
    by (intro conjI) (rule a1, rule r1, rule a2, rule r2)
qed

subsection \<open>C3: every unresolvable host is reported\<close>

text \<open>
  C3: when \<^verbatim>\<open>cluster.hosts\<close> is a list with at least one name that does not resolve
  (\<^verbatim>\<open>socket.gaierror\<close>), the resolution of every host of the list is attempted, in order,
  a critical message naming each unresolvable host is logged, the last message is the
  critical summary, and the function then exits with status 1.
\<close>

theorem unresolvable_hosts_all_reported:
  assumes "getitem2 config ''cluster'' ''hosts'' = Inr (YList hosts)"
    and "h \<in> set hosts" and "py_gethostbyname en h = Inl Gaierror"
  shows "\<exists>evs. prom_client en config = Some (Exit 1, config, evs)
     \<and> attempted evs = hosts
     \<and> (\<forall>x \<in> set hosts. py_gethostbyname en x = Inl Gaierror \<longrightarrow>
          Log CRITICAL ''Hostname {host} not resolvable - is it in /etc/hosts or DNS?'' [V x] \<in> set evs)
     \<and> last evs = Log CRITICAL ''Errors resolving hostnames given.  Please ensure they are in /etc/hosts or DNS and are resolvable'' []"
proof -
  let ?evs = "concat (map (\<lambda>h. snd (try_resolve en h)) hosts)"
  let ?final = "Log CRITICAL ''Errors resolving hostnames given.  Please ensure they are in /etc/hosts or DNS and are resolvable'' []"
  have err: "list_ex (\<lambda>h. fst (try_resolve en h)) hosts"
    unfolding list_ex_iff using assms(2,3) by (intro bexI[of _ h]) (simp_all add: try_resolve_gaierror)
  have chk: "check_hosts_and_stanzas en config = (Some (Exit 1), ?evs @ [?final])"
    using assms(1) err by (simp add: check_hosts_and_stanzas_def resolve_hosts_eq)
  have run: "prom_client en config = Some (Exit 1, config, ?evs @ [?final])"
    by (simp add: prom_client_def prom_client_setup_def chk)
  have named: "Log CRITICAL ''Hostname {host} not resolvable - is it in /etc/hosts or DNS?'' [V x] \<in> set ?evs"
    if "x \<in> set hosts" "py_gethostbyname en x = Inl Gaierror" for x
    using that by (auto simp: try_resolve_gaierror intro!: bexI[of _ x])
  show ?thesis
    using run named by (auto simp: attempted_append attempted_resolve)
qed

theorem unresolvable_hosts_all_reported_witness:
  "getitem2 config_two_bad_hosts ''cluster'' ''hosts'' =
     Inr (YList [YStr ''weka01'', YStr ''nohost1'', YStr ''weka02'', YStr ''nohost2''])
   \<and> YStr ''nohost1'' \<in> set [YStr ''weka01'', YStr ''nohost1'', YStr ''weka02'', YStr ''nohost2'']
   \<and> py_gethostbyname env_ok (YStr ''nohost1'') = Inl Gaierror
   \<and> (\<exists>evs. prom_client env_ok config_two_bad_hosts = Some (Exit 1, config_two_bad_hosts, evs)
        \<and> attempted evs = [YStr ''weka01'', YStr ''nohost1'', YStr ''weka02'', YStr ''nohost2'']
        \<and> Log CRITICAL ''Hostname {host} not resolvable - is it in /etc/hosts or DNS?'' [V (YStr ''nohost1'')] \<in> set evs
        \<and> Log CRITICAL ''Hostname {host} not resolvable - is it in /etc/hosts or DNS?'' [V (YStr ''nohost2'')] \<in> set evs
        \<and> last evs = Log CRITICAL ''Errors resolving hostnames given.  Please ensure they are in /etc/hosts or DNS and are resolvable'' [])"
proof -
  have h1: "getitem2 config_two_bad_hosts ''cluster'' ''hosts'' =
     Inr (YList [YStr ''weka01'', YStr ''nohost1'', YStr ''weka02'', YStr ''nohost2''])"
    by (simp add: config_two_bad_hosts_def getitem2_def)
  have h2: "YStr ''nohost1'' \<in> set [YStr ''weka01'', YStr ''nohost1'', YStr ''weka02'', YStr ''nohost2'']"
    by simp
  have h3: "py_gethostbyname env_ok (YStr ''nohost1'') = Inl Gaierror"
    by (simp add: env_ok_def)
  have h4: "py_gethostbyname env_ok (YStr ''nohost2'') = Inl Gaierror"
    by (simp add: env_ok_def)
  from unresolvable_hosts_all_reported[OF h1 h2 h3] h4
  show ?thesis using h1 h3 by auto
qed

subsection \<open>C4: verbosity 2 and above\<close>

text \<open>
  C4 says that for every verbosity of 2 or more the root level is \<^verbatim>\<open>DEBUG\<close> with the
  file/line/function console format, and that the library loggers are at \<^verbatim>\<open>DEBUG\<close> from
  verbosity 3 on and otherwise, at verbosity 2, keep the level of verbosity 1, \<^verbatim>\<open>INFO\<close>.
  The source misses the last part. The branch \<^verbatim>\<open>elif verbosity == 2\<close> is the only one of the
  three that does not assign \<^verbatim>\<open>libloglevel\<close>, which keeps its initial value \<^verbatim>\<open>logging.ERROR\<close>
  of line 131, although the comment of line 178 says the library loggers
  \<^verbatim>\<open>should leave at INFO as default\<close>. At verbosity 2 (\<^verbatim>\<open>-vv\<close>) the loggers \<^verbatim>\<open>wekalib.wekaapi\<close>
  and \<^verbatim>\<open>wekalib.wekacluster\<close> are therefore set to \<^verbatim>\<open>ERROR\<close>, below the \<^verbatim>\<open>INFO\<close> that verbosity 1
  gives them: the levels go \<^verbatim>\<open>ERROR\<close>, \<^verbatim>\<open>INFO\<close>, \<^verbatim>\<open>ERROR\<close>, \<^verbatim>\<open>DEBUG\<close> for verbosity 0, 1, 2, 3.
\<close>

theorem verbosity_two_library_level:
  "level_of (fst (configure_logging env_ok 2 False initial_logging)) ''wekalib.wekaapi'' = Some ERROR
   \<and> level_of (fst (configure_logging env_ok 2 False initial_logging)) ''wekalib.wekacluster'' = Some ERROR
   \<and> level_of (fst (configure_logging env_ok 2 False initial_logging)) ''wekalib.wekaapi'' \<noteq> Some INFO
   \<and> level_of (fst (configure_logging env_ok 0 False initial_logging)) ''wekalib.wekaapi'' = Some ERROR
   \<and> level_of (fst (configure_logging env_ok 1 False initial_logging)) ''wekalib.wekaapi'' = Some INFO
   \<and> level_of (fst (configure_logging env_ok 1 False initial_logging)) ''wekalib.wekacluster'' = Some INFO
   \<and> level_of (fst (configure_logging env_ok 3 False initial_logging)) ''wekalib.wekaapi'' = Some DEBUG
   \<and> level_of (fst (configure_logging env_ok 3 False initial_logging)) ''wekalib.wekacluster'' = Some DEBUG"
  by (simp add: configure_logging_levels choose_logvars_def default_logvars_def)

text \<open>
  The other parts of C4 hold on the source: for every verbosity of 2 or more the root level
  is \<^verbatim>\<open>DEBUG\<close> and the console handler added has the file/line/function format, and from
  verbosity 3 on the two library loggers are set to \<^verbatim>\<open>DEBUG\<close>.
\<close>

lemma configure_logging_verbose_root_and_debug:
  assumes "2 \<le> vb"
  shows "root_level (fst (configure_logging en vb ds lc)) = DEBUG
     \<and> (\<exists>others. root_handlers (fst (configure_logging en vb ds lc)) =
           root_handlers lc @ StreamHandler ''%(filename)s:%(lineno)s:%(funcName)s():%(levelname)s:%(message)s'' # others)
     \<and> (3 \<le> vb \<longrightarrow>
           level_of (fst (configure_logging en vb ds lc)) ''wekalib.wekaapi'' = Some DEBUG
         \<and> level_of (fst (configure_logging en vb ds lc)) ''wekalib.wekacluster'' = Some DEBUG)"
  using assms
  by (simp add: configure_logging_levels configure_logging_handlers choose_logvars_def default_logvars_def)

subsection \<open>C5: the metrics server does not start\<close>

text \<open>
  C5: in every run in which \<^verbatim>\<open>start_http_server\<close> is called on a port and raises, the last thing
  the function does is log the critical message; it then returns 1, where every failure of
  the cluster connection ends in a bare \<^verbatim>\<open>return\<close> (or an uncaught exception), and the collector
  is not registered.
\<close>

theorem server_start_failure:
  assumes "prom_client_setup en config = (r, config', evs)"
    and "StartHttpServer p \<in> set evs"
    and "start_http_server en p = Some exc"
  shows "prom_client en config = Some (Return (Some 1), config', evs)
       \<and> (\<forall>col. Register col \<notin> set evs)
       \<and> (\<exists>hosts t cargs obj port. evs = map Gethostbyname hosts @
             [Log INFO ''Timeout set to {config['exporter']['timeout']} secs'' [V t],
              NewWekaCluster cargs,
              NewCollector config' obj,
              Log INFO ''starting http server on port {config['exporter']['listen_port']}'' [V port],
              StartHttpServer p,
              Log CRITICAL ''Unable to start http server on port {config['exporter']['listen_port']}: {exc}'' [V port, E exc]])
       \<and> (\<forall>c out evs1. connect en c = (Inl out, evs1) \<longrightarrow> out = Return None \<or> (\<exists>e. out = Raise e))"
  using setup_cases[OF assms(1)]
proof (elim disjE exE conjE)
  fix out assume "check_hosts_and_stanzas en config = (Some out, evs)"
  then have "evs = snd (check_hosts_and_stanzas en config)" by simp
  with assms(2) show ?thesis by auto
next
  fix hosts exc assume "evs = map Gethostbyname hosts"
  with assms(2) show ?thesis by auto
next
  fix hosts out evs1
  assume c: "connect en config' = (Inl out, evs1)" and e: "evs = map Gethostbyname hosts @ evs1"
  from assms(2) e have m: "StartHttpServer p \<in> set evs1" by auto
  from connect_cases[OF c] m show ?thesis
    by (elim disjE exE conjE) auto
next
  fix hosts obj evs1 evs2
  assume c: "connect en config' = (Inr obj, evs1)" and s: "start_server en config' obj = (r, evs2)"
    and e: "evs = map Gethostbyname hosts @ evs1 @ evs2"
  from connect_cases[OF c] obtain t cargs where
    e1: "evs1 = [Log INFO ''Timeout set to {config['exporter']['timeout']} secs'' [V t], NewWekaCluster cargs]"
    by (elim disjE exE conjE) auto
  from assms(2) e e1 have m: "StartHttpServer p \<in> set evs2" by auto
  from start_server_cases[OF s] m assms(3) obtain port where
    r: "r = Inl (Return (Some 1))" and
    e2: "evs2 = [NewCollector config' obj,
                 Log INFO ''starting http server on port {config['exporter']['listen_port']}'' [V port],
                 StartHttpServer p,
                 Log CRITICAL ''Unable to start http server on port {config['exporter']['listen_port']}: {exc}'' [V port, E exc]]"
    by (elim disjE exE conjE) auto
  have p: "prom_client en config = Some (Return (Some 1), config', evs)"
    using assms(1) r by (simp add: prom_client_stops)
  have tr: "evs = map Gethostbyname hosts @
             [Log INFO ''Timeout set to {config['exporter']['timeout']} secs'' [V t],
              NewWekaCluster cargs,
              NewCollector config' obj,
              Log INFO ''starting http server on port {config['exporter']['listen_port']}'' [V port],
              StartHttpServer p,
              Log CRITICAL ''Unable to start http server on port {config['exporter']['listen_port']}: {exc}'' [V port, E exc]]"
    using e e1 e2 by simp
  have nr: "\<forall>col. Register col \<notin> set evs"
    unfolding tr by auto
  have cf: "\<forall>c out evs1. connect en c = (Inl out, evs1) \<longrightarrow> out = Return None \<or> (\<exists>e. out = Raise e)"
    using connect_stops_outcome by blast
  show ?thesis
    using p nr tr cf by blast
qed

theorem server_start_failure_witness:
  "prom_client_setup env_port_busy example_config =
     (Inl (Return (Some 1)), example_config_defaulted,
      [Gethostbyname (YStr ''weka01''), Gethostbyname (YStr ''weka02''),
       Log INFO ''Timeout set to {config['exporter']['timeout']} secs'' [V (YInt 10)],
       NewWekaCluster example_args,
       NewCollector example_config_defaulted (ClusterObj 0),
       Log INFO ''starting http server on port {config['exporter']['listen_port']}'' [V (YInt 8001)],
       StartHttpServer 8001,
       Log CRITICAL ''Unable to start http server on port {config['exporter']['listen_port']}: {exc}''
         [V (YInt 8001), E (OtherException ''OSError: [Errno 98] Address already in use'')]])
   \<and> start_http_server env_port_busy 8001 = Some (OtherException ''OSError: [Errno 98] Address already in use'')
   \<and> prom_client env_port_busy example_config =
       Some (Return (Some 1), example_config_defaulted,
      [Gethostbyname (YStr ''weka01''), Gethostbyname (YStr ''weka02''),
       Log INFO ''Timeout set to {config['exporter']['timeout']} secs'' [V (YInt 10)],
       NewWekaCluster example_args,
       NewCollector example_config_defaulted (ClusterObj 0),
       Log INFO ''starting http server on port {config['exporter']['listen_port']}'' [V (YInt 8001)],
       StartHttpServer 8001,
       Log CRITICAL ''Unable to start http server on port {config['exporter']['listen_port']}: {exc}''
         [V (YInt 8001), E (OtherException ''OSError: [Errno 98] Address already in use'')]])"
proof -
  have s: "start_http_server env_port_busy 8001 = Some (OtherException ''OSError: [Errno 98] Address already in use'')"
    by (simp add: env_port_busy_def)
  have p: "prom_client env_port_busy example_config =
       Some (Return (Some 1), example_config_defaulted,
      [Gethostbyname (YStr ''weka01''), Gethostbyname (YStr ''weka02''),
       Log INFO ''Timeout set to {config['exporter']['timeout']} secs'' [V (YInt 10)],
       NewWekaCluster example_args,
       NewCollector example_config_defaulted (ClusterObj 0),
       Log INFO ''starting http server on port {config['exporter']['listen_port']}'' [V (YInt 8001)],
       StartHttpServer 8001,
       Log CRITICAL ''Unable to start http server on port {config['exporter']['listen_port']}: {exc}''
         [V (YInt 8001), E (OtherException ''OSError: [Errno 98] Address already in use'')]])"
    using server_start_failure[OF setup_port_busy _ s] by simp
  show ?thesis
    by (intro conjI) (rule setup_port_busy, rule s, rule p)
qed

subsection \<open>C6: \<^verbatim>\<open>--version\<close>\<close>

text \<open>
  C6: when the parsed arguments have \<^verbatim>\<open>version\<close> set, \<open>main\<close> prints the version string and
  exits with status 0. Nothing else happens after the signal handlers are installed: the
  logging configuration is the one \<open>main\<close> was started with, and the trace has no test of
  the configuration file's existence and no read of it, whatever the file system holds.
\<close>

theorem version_exits_first:
  assumes "version a"
  shows "main en argv0 a lc =
           Some (Exit 0, lc, [SignalHandling, PrintOut ''{sys.argv[0]} version {VERSION}'' [S argv0, S VERSION]])
       \<and> exit_status (Exit 0) = 0"
  using assms by (simp add: main_def)

theorem version_exits_first_witness:
  "version args_version \<and> \<not> path_exists env_ok (configfile args_version)
   \<and> main env_ok ''quota-export.py'' args_version initial_logging =
        Some (Exit 0, initial_logging,
              [SignalHandling, PrintOut ''{sys.argv[0]} version {VERSION}'' [S ''quota-export.py'', S ''2025-06-25'']])"
proof -
  have v: "version args_version" by (simp add: args_version_def)
  have n: "\<not> path_exists env_ok (configfile args_version)"
    by (simp add: args_version_def env_ok_def)
  show ?thesis
    using version_exits_first[OF v, of env_ok "''quota-export.py''" initial_logging] v n
    by (simp add: VERSION_def)
qed

subsection \<open>C7: what the loader rejects\<close>

text \<open>
  C7 says that the loader fails for a file that parses to something other than a mapping.
  The loader returns whatever the parser returns: a file whose contents are \<^verbatim>\<open>- a\<close> parses to
  a list, and the loader returns that list, with no error and no message.
\<close>

theorem load_config_returns_non_mapping_counterexample:
  "open_file env_list_file ''./quota-export.yml'' = Inr ''- a''
   \<and> yaml_load_full env_list_file ''- a'' = Inr (YList [YStr ''a''])
   \<and> load_config env_list_file ''./quota-export.yml'' = (Inr (YList [YStr ''a'']), [OpenFile ''./quota-export.yml''])"
  by (simp add: load_config_def env_list_file_def)

text \<open>
  C7 as amended, for a file that can be opened: when the parser raises (anything but
  \<^verbatim>\<open>AttributeError\<close>), the loader logs the error and fails with the parser's exception; on
  \<^verbatim>\<open>AttributeError\<close> it calls the parser again without a loader, and that call's result or
  exception is the loader's; when the parser returns a document, mapping or not, the loader
  returns that document as it is: it checks nothing and applies no default.
\<close>

theorem load_config_behaviour:
  assumes "open_file en f = Inr s"
  shows "(\<forall>exc. yaml_load_full en s = Inl exc \<and> exc \<noteq> AttributeError \<longrightarrow>
            load_config en f = (Inl exc, [OpenFile f, Log ERROR ''Error reading config file: {exc}'' [E exc]]))
       \<and> (yaml_load_full en s = Inl AttributeError \<longrightarrow> load_config en f = (yaml_load_plain en s, [OpenFile f]))
       \<and> (\<forall>doc. yaml_load_full en s = Inr doc \<longrightarrow> load_config en f = (Inr doc, [OpenFile f]))"
  using assms by (simp add: load_config_def)

theorem load_config_behaviour_witness:
  "open_file env_bad_yaml ''./quota-export.yml'' = Inr ''{''
   \<and> yaml_load_full env_bad_yaml ''{'' = Inl (OtherException ''yaml.parser.ParserError'')
   \<and> load_config env_bad_yaml ''./quota-export.yml'' =
        (Inl (OtherException ''yaml.parser.ParserError''),
         [OpenFile ''./quota-export.yml'',
          Log ERROR ''Error reading config file: {exc}'' [E (OtherException ''yaml.parser.ParserError'')]])
   \<and> open_file env_list_file ''./quota-export.yml'' = Inr ''- a''
   \<and> yaml_load_full env_list_file ''- a'' = Inr (YList [YStr ''a''])
   \<and> load_config env_list_file ''./quota-export.yml'' = (Inr (YList [YStr ''a'']), [OpenFile ''./quota-export.yml''])"
proof -
  have o1: "open_file env_bad_yaml ''./quota-export.yml'' = Inr ''{''"
    by (simp add: env_bad_yaml_def)
  have y1: "yaml_load_full env_bad_yaml ''{'' = Inl (OtherException ''yaml.parser.ParserError'')"
    by (simp add: env_bad_yaml_def)
  have o2: "open_file env_list_file ''./quota-export.yml'' = Inr ''- a''"
    by (simp add: env_list_file_def)
  have y2: "yaml_load_full env_list_file ''- a'' = Inr (YList [YStr ''a''])"
    by (simp add: env_list_file_def)
  show ?thesis
    using load_config_behaviour[OF o1] load_config_behaviour[OF o2] o1 y1 o2 y2
    by simp
qed

subsection \<open>C8: the handlers of the cluster connection\<close>

text \<open>
  C8: in every run in which the constructor \<^verbatim>\<open>WekaCluster\<close> is called and raises
  \<^verbatim>\<open>SSLError\<close>, the function logs the three TLS messages (https needs weka v3.10, is the
  cluster older, the error) and returns; these are the only messages after the call, so
  neither the permission message nor the generic one is logged. When the constructor raises
  \<^verbatim>\<open>HTTPError\<close> with code 403, the only message is the permission one.
\<close>

theorem tls_failure_branch:
  assumes "prom_client_setup en config = (r, config', evs)"
    and "NewWekaCluster cargs \<in> set evs"
  shows "(WekaCluster en cargs = Inl SSLError \<longrightarrow>
            prom_client en config = Some (Return None, config', evs)
          \<and> (\<exists>hosts t. evs = map Gethostbyname hosts @
                [Log INFO ''Timeout set to {config['exporter']['timeout']} secs'' [V t],
                 NewWekaCluster cargs,
                 Log CRITICAL ''SSL Error: Only weka v3.10 and above support https, and force_https is set in config file.'' [],
                 Log CRITICAL ''SSL Error: Is this cluster < v3.10? Please verify configuration'' [],
                 Log CRITICAL ''Error is {exc}'' [E SSLError]]))
       \<and> (WekaCluster en cargs = Inl (HTTPError 403) \<longrightarrow>
            prom_client en config = Some (Return None, config', evs)
          \<and> (\<exists>hosts t. evs = map Gethostbyname hosts @
                [Log INFO ''Timeout set to {config['exporter']['timeout']} secs'' [V t],
                 NewWekaCluster cargs,
                 Log CRITICAL ''Cluster returned permission error - is the userid level ReadOnly or above?'' []]))"
  using setup_cluster_event[OF assms]
proof (elim disjE exE conjE)
  fix hosts t exc
  assume w: "WekaCluster en cargs = Inl exc" and r: "r = Inl (Return None)"
    and e: "evs = map Gethostbyname hosts @
                 Log INFO ''Timeout set to {config['exporter']['timeout']} secs'' [V t] #
                 NewWekaCluster cargs # connect_failed exc"
  have p: "prom_client en config = Some (Return None, config', evs)"
    using assms(1) r by (simp add: prom_client_stops)
  show ?thesis
    using w p e by (auto simp: connect_failed_def)
next
  fix obj assume "WekaCluster en cargs = Inr obj"
  then show ?thesis by simp
qed

theorem tls_failure_branch_witness:
  "prom_client_setup env_ssl config_force_https =
     (Inl (Return None), config_force_https_defaulted,
      [Gethostbyname (YStr ''weka01''), Gethostbyname (YStr ''weka02''),
       Log INFO ''Timeout set to {config['exporter']['timeout']} secs'' [V (YInt 10)],
       NewWekaCluster args_force_https,
       Log CRITICAL ''SSL Error: Only weka v3.10 and above support https, and force_https is set in config file.'' [],
       Log CRITICAL ''SSL Error: Is this cluster < v3.10? Please verify configuration'' [],
       Log CRITICAL ''Error is {exc}'' [E SSLError]])
   \<and> WekaCluster env_ssl args_force_https = Inl SSLError
   \<and> prom_client env_ssl config_force_https =
       Some (Return None, config_force_https_defaulted,
      [Gethostbyname (YStr ''weka01''), Gethostbyname (YStr ''weka02''),
       Log INFO ''Timeout set to {config['exporter']['timeout']} secs'' [V (YInt 10)],
       NewWekaCluster args_force_https,
       Log CRITICAL ''SSL Error: Only weka v3.10 and above support https, and force_https is set in config file.'' [],
       Log CRITICAL ''SSL Error: Is this cluster < v3.10? Please verify configuration'' [],
       Log CRITICAL ''Error is {exc}'' [E SSLError]])
   \<and> prom_client_setup env_403 config_force_https =
     (Inl (Return None), config_force_https_defaulted,
      [Gethostbyname (YStr ''weka01''), Gethostbyname (YStr ''weka02''),
       Log INFO ''Timeout set to {config['exporter']['timeout']} secs'' [V (YInt 10)],
       NewWekaCluster args_force_https,
       Log CRITICAL ''Cluster returned permission error - is the userid level ReadOnly or above?'' []])
   \<and> WekaCluster env_403 args_force_https = Inl (HTTPError 403)
   \<and> prom_client env_403 config_force_https =
       Some (Return None, config_force_https_defaulted,
      [Gethostbyname (YStr ''weka01''), Gethostbyname (YStr ''weka02''),
       Log INFO ''Timeout set to {config['exporter']['timeout']} secs'' [V (YInt 10)],
       NewWekaCluster args_force_https,
       Log CRITICAL ''Cluster returned permission error - is the userid level ReadOnly or above?'' []])"
proof -
  have w1: "WekaCluster env_ssl args_force_https = Inl SSLError"
    by (simp add: env_ssl_def)
  have w2: "WekaCluster env_403 args_force_https = Inl (HTTPError 403)"
    by (simp add: env_403_def)
  have p1: "prom_client env_ssl config_force_https = Some (Return None, config_force_https_defaulted,
      [Gethostbyname (YStr ''weka01''), Gethostbyname (YStr ''weka02''),
       Log INFO ''Timeout set to {config['exporter']['timeout']} secs'' [V (YInt 10)],
       NewWekaCluster args_force_https,
       Log CRITICAL ''SSL Error: Only weka v3.10 and above support https, and force_https is set in config file.'' [],
       Log CRITICAL ''SSL Error: Is this cluster < v3.10? Please verify configuration'' [],
       Log CRITICAL ''Error is {exc}'' [E SSLError]])"
    using tls_failure_branch[OF setup_ssl, of args_force_https] w1 by simp
  have p2: "prom_client env_403 config_force_https = Some (Return None, config_force_https_defaulted,
      [Gethostbyname (YStr ''weka01''), Gethostbyname (YStr ''weka02''),
       Log INFO ''Timeout set to {config['exporter']['timeout']} secs'' [V (YInt 10)],
       NewWekaCluster args_force_https,
       Log CRITICAL ''Cluster returned permission error - is the userid level ReadOnly or above?'' []])"
    using tls_failure_branch[OF setup_403, of args_force_https] w2 by simp
  show ?thesis
    by (intro conjI) (rule setup_ssl, rule w1, rule p1, rule setup_403, rule w2, rule p2)
qed

subsection \<open>C9: a configuration without \<^verbatim>\<open>exporter.listen_port\<close>\<close>

text \<open>
  C9: take a configuration whose stanzas are mappings, whose hosts all resolve, which names an
  \<^verbatim>\<open>auth_token_file\<close> and has no \<^verbatim>\<open>exporter.listen_port\<close>, and a cluster whose constructor succeeds on
  the arguments the configuration gives. The checks and the defaults pass, the constructor is
  called, the collector is built, and the function stops with an uncaught
  \<^verbatim>\<open>KeyError('listen_port')\<close>: nothing is logged about it and the server is never started.
\<close>

theorem missing_listen_port_surfaces_late:
  assumes "map_of doc ''cluster'' = Some (YMap c)"
    and "map_of doc ''exporter'' = Some (YMap e)"
    and "map_of c ''hosts'' = Some (YList hosts)"
    and "list_all (\<lambda>h. \<not> isl (py_gethostbyname en h)) hosts"
    and "map_of c ''auth_token_file'' = Some tok"
    and "map_of e ''listen_port'' = None"
    and "WekaCluster en
           \<lparr>arg_hosts = YList hosts, arg_auth_token_file = tok,
            arg_force_https = or_default c ''force_https'' (YBool False),
            arg_verify_cert = or_default c ''verify_cert'' (YBool True),
            arg_backends_only = or_default e ''backends_only'' (YBool True),
            arg_timeout = or_default e ''timeout'' (YInt 10),
            arg_mgmt_port = or_default c ''mgmt_port'' (YInt 14000)\<rparr> = Inr obj"
  shows "\<exists>config1. apply_defaults (YMap doc) = (None, config1)
     \<and> prom_client en (YMap doc) =
         Some (Raise (KeyError ''listen_port''), config1,
               map Gethostbyname hosts @
               [Log INFO ''Timeout set to {config['exporter']['timeout']} secs'' [V (or_default e ''timeout'' (YInt 10))],
                NewWekaCluster
                  \<lparr>arg_hosts = YList hosts, arg_auth_token_file = tok,
                   arg_force_https = or_default c ''force_https'' (YBool False),
                   arg_verify_cert = or_default c ''verify_cert'' (YBool True),
                   arg_backends_only = or_default e ''backends_only'' (YBool True),
                   arg_timeout = or_default e ''timeout'' (YInt 10),
                   arg_mgmt_port = or_default c ''mgmt_port'' (YInt 14000)\<rparr>,
                NewCollector config1 obj])"
proof -
  have it: "and_then (getitem2 (YMap doc) ''cluster'' ''hosts'') iter = Inr hosts"
    using assms(1,3) by (simp add: getitem2_def)
  have ex: "contains ''exporter'' (YMap doc) = Inr True"
    using assms(2) by simp
  have chk: "check_hosts_and_stanzas en (YMap doc) = (None, map Gethostbyname hosts)"
    by (rule check_passes_iff[OF it assms(4) ex])
  from apply_defaults_maps[OF assms(1,2)] show ?thesis
  proof (elim exE conjE)
    fix doc' c' e'
    assume d1: "apply_defaults (YMap doc) = (None, YMap doc')"
      and d2: "map_of doc' ''cluster'' = Some (YMap c')"
      and d3: "map_of doc' ''exporter'' = Some (YMap e')"
      and d5: "map_of c' = map_of [(''force_https'', YBool False), (''filesystems'', YNull),
                             (''verify_cert'', YBool True), (''mgmt_port'', YInt 14000)] ++ map_of c"
      and d6: "map_of e' = map_of [(''timeout'', YInt 10), (''backends_only'', YBool True),
                             (''exceeded_only'', YBool True)] ++ map_of e"
    have c1: "map_of c' ''hosts'' = Some (YList hosts)" "map_of c' ''auth_token_file'' = Some tok"
      unfolding d5 using assms(3,5) by (simp_all add: map_add_def)
    have c2: "map_of c' ''force_https'' = Some (or_default c ''force_https'' (YBool False))"
      "map_of c' ''verify_cert'' = Some (or_default c ''verify_cert'' (YBool True))"
      "map_of c' ''mgmt_port'' = Some (or_default c ''mgmt_port'' (YInt 14000))"
      unfolding d5 by (simp_all add: map_add_def or_default_def split: option.splits)
    have e1: "map_of e' ''timeout'' = Some (or_default e ''timeout'' (YInt 10))"
      "map_of e' ''backends_only'' = Some (or_default e ''backends_only'' (YBool True))"
      unfolding d6 by (simp_all add: map_add_def or_default_def split: option.splits)
    have e2: "map_of e' ''listen_port'' = None"
      unfolding d6 using assms(6) by (simp add: map_add_def)
    let ?cargs = "\<lparr>arg_hosts = YList hosts, arg_auth_token_file = tok,
                   arg_force_https = or_default c ''force_https'' (YBool False),
                   arg_verify_cert = or_default c ''verify_cert'' (YBool True),
                   arg_backends_only = or_default e ''backends_only'' (YBool True),
                   arg_timeout = or_default e ''timeout'' (YInt 10),
                   arg_mgmt_port = or_default c ''mgmt_port'' (YInt 14000)\<rparr>"
    have ga: "get_cluster_args (YMap doc') = Inr ?cargs"
      by (simp add: get_cluster_args_def getitem2_YMap[OF d2] getitem2_YMap[OF d3] c1 c2 e1)
    have co: "connect en (YMap doc') =
        (Inr obj, [Log INFO ''Timeout set to {config['exporter']['timeout']} secs'' [V (or_default e ''timeout'' (YInt 10))],
                   NewWekaCluster ?cargs])"
      by (simp add: connect_def ga getitem2_YMap[OF d3] e1 assms(7))
    have st: "start_server en (YMap doc') obj = (Inl (Raise (KeyError ''listen_port'')), [NewCollector (YMap doc') obj])"
      by (simp add: start_server_def getitem2_YMap[OF d3] e2)
    have su: "prom_client_setup en (YMap doc) =
        (Inl (Raise (KeyError ''listen_port'')), YMap doc',
         map Gethostbyname hosts @
           [Log INFO ''Timeout set to {config['exporter']['timeout']} secs'' [V (or_default e ''timeout'' (YInt 10))],
            NewWekaCluster ?cargs, NewCollector (YMap doc') obj])"
      unfolding setup_after_defaults[OF chk d1] by (simp add: co st)
    show ?thesis
      by (rule exI[of _ "YMap doc'"]) (simp add: d1 prom_client_stops[OF su])
  qed
qed

theorem missing_listen_port_surfaces_late_witness:
  "list_all (\<lambda>h. \<not> isl (py_gethostbyname env_ok h)) [YStr ''weka01'', YStr ''weka02'']
   \<and> getitem2 config_no_listen_port ''exporter'' ''listen_port'' = Inl (KeyError ''listen_port'')
   \<and> WekaCluster env_ok args_no_listen_port = Inr (ClusterObj 0)
   \<and> prom_client env_ok config_no_listen_port =
       Some (Raise (KeyError ''listen_port''), config_no_listen_port_defaulted,
             [Gethostbyname (YStr ''weka01''), Gethostbyname (YStr ''weka02''),
              Log INFO ''Timeout set to {config['exporter']['timeout']} secs'' [V (YInt 5)],
              NewWekaCluster args_no_listen_port,
              NewCollector config_no_listen_port_defaulted (ClusterObj 0)])"
proof -
  let ?c = "[(''hosts'', YList [YStr ''weka01'', YStr ''weka02'']), (''auth_token_file'', YStr ''auth-token.json'')]"
  let ?e = "[(''timeout'', YInt 5)]"
  let ?doc = "[(''cluster'', YMap ?c), (''exporter'', YMap ?e)]"
  have x: "config_no_listen_port = YMap ?doc"
    by (simp add: config_no_listen_port_def)
  have h1: "map_of ?doc ''cluster'' = Some (YMap ?c)" by simp
  have h2: "map_of ?doc ''exporter'' = Some (YMap ?e)" by simp
  have h3: "map_of ?c ''hosts'' = Some (YList [YStr ''weka01'', YStr ''weka02''])" by simp
  have h4: "list_all (\<lambda>h. \<not> isl (py_gethostbyname env_ok h)) [YStr ''weka01'', YStr ''weka02'']"
    by (simp add: env_ok_def)
  have h5: "map_of ?c ''auth_token_file'' = Some (YStr ''auth-token.json'')" by simp
  have h6: "map_of ?e ''listen_port'' = None" by simp
  have h7: "WekaCluster env_ok
           \<lparr>arg_hosts = YList [YStr ''weka01'', YStr ''weka02''], arg_auth_token_file = YStr ''auth-token.json'',
            arg_force_https = or_default ?c ''force_https'' (YBool False),
            arg_verify_cert = or_default ?c ''verify_cert'' (YBool True),
            arg_backends_only = or_default ?e ''backends_only'' (YBool True),
            arg_timeout = or_default ?e ''timeout'' (YInt 10),
            arg_mgmt_port = or_default ?c ''mgmt_port'' (YInt 14000)\<rparr> = Inr (ClusterObj 0)"
    by (simp add: env_ok_def)
  have g: "getitem2 config_no_listen_port ''exporter'' ''listen_port'' = Inl (KeyError ''listen_port'')"
    by (simp add: config_no_listen_port_def getitem2_def)
  have w: "WekaCluster env_ok args_no_listen_port = Inr (ClusterObj 0)"
    by (simp add: env_ok_def)
  from missing_listen_port_surfaces_late[OF h1 h2 h3 h4 h5 h6 h7, folded x]
  have p: "prom_client env_ok config_no_listen_port =
       Some (Raise (KeyError ''listen_port''), config_no_listen_port_defaulted,
             [Gethostbyname (YStr ''weka01''), Gethostbyname (YStr ''weka02''),
              Log INFO ''Timeout set to {config['exporter']['timeout']} secs'' [V (YInt 5)],
              NewWekaCluster args_no_listen_port,
              NewCollector config_no_listen_port_defaulted (ClusterObj 0)])"
    by (elim exE conjE) (simp add: defaults_no_listen_port or_default_def args_no_listen_port_def)
  show ?thesis
    by (intro conjI) (rule h4, rule g, rule w, rule p)
qed

subsection \<open>C10: a configuration file that exists and does not load\<close>

text \<open>
  C10: when \<^verbatim>\<open>--version\<close> is not given, the configuration file exists and \<open>load_config\<close>
  fails (the file cannot be opened, or the parser raises), \<open>main\<close> logs a critical message
  last and returns, so the process ends with status 0; with the same arguments and a file
  that does not exist, \<open>main\<close> logs a critical message and exits with status 1.
\<close>

theorem load_failure_returns_normally:
  assumes "\<not> version a"
    and "path_exists en (configfile a)"
    and "load_config en (configfile a) = (Inl exc, evs3)"
  shows "(\<exists>lc1 evs. main en argv0 a lc =
            Some (Return None, lc1,
                  evs @ [Log CRITICAL ''Error loading config file '{args.configfile}': {exc}'' [S (configfile a), E exc]]))
       \<and> exit_status (Return None) = 0
       \<and> (\<exists>lc1 evs. main (en\<lparr>path_exists := (\<lambda>p. False)\<rparr>) argv0 a lc =
            Some (Exit 1, lc1,
                  evs @ [Log CRITICAL ''Required configfile '{args.configfile}' does not exist'' [S (configfile a)]]))
       \<and> exit_status (Exit 1) = 1"
proof -
  obtain lc1 evs1 where cl: "configure_logging en (verbosity a) (no_syslog a) lc = (lc1, evs1)"
    by (cases "configure_logging en (verbosity a) (no_syslog a) lc")
  have m1: "main en argv0 a lc =
            Some (Return None, lc1,
                  (SignalHandling # evs1 @ [PathExists (configfile a), Log DEBUG ''loading config file'' []] @ evs3) @
                  [Log CRITICAL ''Error loading config file '{args.configfile}': {exc}'' [S (configfile a), E exc]])"
    using assms cl by (simp add: main_def)
  obtain lc2 evs2 where cl2: "configure_logging (en\<lparr>path_exists := (\<lambda>p. False)\<rparr>) (verbosity a) (no_syslog a) lc = (lc2, evs2)"
    by (cases "configure_logging (en\<lparr>path_exists := (\<lambda>p. False)\<rparr>) (verbosity a) (no_syslog a) lc")
  have m2: "main (en\<lparr>path_exists := (\<lambda>p. False)\<rparr>) argv0 a lc =
            Some (Exit 1, lc2,
                  (SignalHandling # evs2 @ [PathExists (configfile a)]) @
                  [Log CRITICAL ''Required configfile '{args.configfile}' does not exist'' [S (configfile a)]])"
    using assms(1) cl2 by (simp add: main_def)
  show ?thesis
    using m1 m2 by (intro conjI exI) simp_all
qed


theorem load_failure_returns_normally_witness:
  "\<not> version args_default
   \<and> path_exists env_unreadable (configfile args_default)
   \<and> load_config env_unreadable (configfile args_default) =
        (Inl (OtherException ''PermissionError''), [OpenFile ''./quota-export.yml''])
   \<and> main env_unreadable ''quota-export.py'' args_default initial_logging =
        Some (Return None, fst (configure_logging env_unreadable 0 True initial_logging),
              [SignalHandling, PathExists ''./quota-export.yml'', Log DEBUG ''loading config file'' [],
               OpenFile ''./quota-export.yml'',
               Log CRITICAL ''Error loading config file '{args.configfile}': {exc}''
                 [S ''./quota-export.yml'', E (OtherException ''PermissionError'')]])
   \<and> path_exists env_bad_yaml (configfile args_default)
   \<and> load_config env_bad_yaml (configfile args_default) =
        (Inl (OtherException ''yaml.parser.ParserError''),
         [OpenFile ''./quota-export.yml'',
          Log ERROR ''Error reading config file: {exc}'' [E (OtherException ''yaml.parser.ParserError'')]])
   \<and> main env_bad_yaml ''quota-export.py'' args_default initial_logging =
        Some (Return None, fst (configure_logging env_bad_yaml 0 True initial_logging),
              [SignalHandling, PathExists ''./quota-export.yml'', Log DEBUG ''loading config file'' [],
               OpenFile ''./quota-export.yml'',
               Log ERROR ''Error reading config file: {exc}'' [E (OtherException ''yaml.parser.ParserError'')],
               Log CRITICAL ''Error loading config file '{args.configfile}': {exc}''
                 [S ''./quota-export.yml'', E (OtherException ''yaml.parser.ParserError'')]])"
proof -
  have v: "\<not> version args_default" by (simp add: args_default_def)
  have p1: "path_exists env_unreadable (configfile args_default)"
    by (simp add: args_default_def env_unreadable_def env_ok_def)
  have p2: "path_exists env_bad_yaml (configfile args_default)"
    by (simp add: args_default_def env_bad_yaml_def env_ok_def)
  have l1: "load_config env_unreadable (configfile args_default) =
        (Inl (OtherException ''PermissionError''), [OpenFile ''./quota-export.yml''])"
    by (simp add: load_config_def args_default_def env_unreadable_def)
  have l2: "load_config env_bad_yaml (configfile args_default) =
        (Inl (OtherException ''yaml.parser.ParserError''),
         [OpenFile ''./quota-export.yml'',
          Log ERROR ''Error reading config file: {exc}'' [E (OtherException ''yaml.parser.ParserError'')]])"
    by (simp add: load_config_def args_default_def env_bad_yaml_def)
  have c: "configfile args_default = ''./quota-export.yml''" "verbosity args_default = 0"
    "no_syslog args_default"
    by (simp_all add: args_default_def)
  have e1: "snd (configure_logging env_unreadable 0 True initial_logging) = []"
    by (simp add: configure_logging_def add_syslog_def Let_def)
  have e2: "snd (configure_logging env_bad_yaml 0 True initial_logging) = []"
    by (simp add: configure_logging_def add_syslog_def Let_def)
  have m1: "main env_unreadable ''quota-export.py'' args_default initial_logging =
        Some (Return None, fst (configure_logging env_unreadable 0 True initial_logging),
              [SignalHandling, PathExists ''./quota-export.yml'', Log DEBUG ''loading config file'' [],
               OpenFile ''./quota-export.yml'',
               Log CRITICAL ''Error loading config file '{args.configfile}': {exc}''
                 [S ''./quota-export.yml'', E (OtherException ''PermissionError'')]])"
    using load_failure_returns_normally[OF v p1 l1, of "''quota-export.py''" initial_logging] v p1 l1 e1
    by (simp add: main_def c split_beta)
  have m2: "main env_bad_yaml ''quota-export.py'' args_default initial_logging =
        Some (Return None, fst (configure_logging env_bad_yaml 0 True initial_logging),
              [SignalHandling, PathExists ''./quota-export.yml'', Log DEBUG ''loading config file'' [],
               OpenFile ''./quota-export.yml'',
               Log ERROR ''Error reading config file: {exc}'' [E (OtherException ''yaml.parser.ParserError'')],
               Log CRITICAL ''Error loading config file '{args.configfile}': {exc}''
                 [S ''./quota-export.yml'', E (OtherException ''yaml.parser.ParserError'')]])"
    using load_failure_returns_normally[OF v p2 l2, of "''quota-export.py''" initial_logging] v p2 l2 e2
    by (simp add: main_def c split_beta)
  show ?thesis
    by (intro conjI) (rule v, rule p1, rule l1, rule m1, rule p2, rule l2, rule m2)
qed

end
